theory Spec2Isabelle
  imports Complex_Main "HOL-Library.Word"
begin

section \<open>Python values used by TransferToHeadset.py\<close>

text \<open>
  A Python \<open>bytes\<close> object is a list of 8-bit words. A Python \<open>str\<close> is a list of Unicode
  code points (natural numbers below \<open>0x110000\<close>), so that \<open>len\<close> counts code points and
  \<open>encode('utf-8')\<close> and \<open>decode('utf-8')\<close> are functions between the two types.
\<close>

type_synonym byte = "8 word"
type_synonym bytes = "byte list"
type_synonym pystr = "nat list"

datatype py_exception =
    UnicodeEncodeError
  | UnicodeDecodeError
  | StructError
  | OSError
  | SocketTimeout

definition str_lit :: "string \<Rightarrow> pystr" where
  "str_lit s = map of_char s"

subsection \<open>\<open>str.encode('utf-8')\<close>\<close>

text \<open>
  One code point. Surrogates (\<open>0xD800..0xDFFF\<close>) raise \<open>UnicodeEncodeError\<close> under the
  default \<open>strict\<close> error handler; a Python \<open>str\<close> holds no code point from \<open>0x110000\<close> on,
  and the model answers with the same error there.
\<close>

definition encode_cp :: "nat \<Rightarrow> py_exception + bytes" where
  "encode_cp c =
     (if c < 0x80 then Inr [of_nat c]
      else if c < 0x800 then Inr [of_nat (0xC0 + c div 64), of_nat (0x80 + c mod 64)]
      else if 0xD800 \<le> c \<and> c \<le> 0xDFFF then Inl UnicodeEncodeError
      else if c < 0x10000 then
        Inr [of_nat (0xE0 + c div 4096), of_nat (0x80 + (c div 64) mod 64),
             of_nat (0x80 + c mod 64)]
      else if c < 0x110000 then
        Inr [of_nat (0xF0 + c div 262144), of_nat (0x80 + (c div 4096) mod 64),
             of_nat (0x80 + (c div 64) mod 64), of_nat (0x80 + c mod 64)]
      else Inl UnicodeEncodeError)"

fun utf8_encode :: "pystr \<Rightarrow> py_exception + bytes" where
  "utf8_encode [] = Inr []"
| "utf8_encode (c # cs) =
     (case encode_cp c of
        Inl e \<Rightarrow> Inl e
      | Inr b \<Rightarrow> (case utf8_encode cs of Inl e \<Rightarrow> Inl e | Inr bs \<Rightarrow> Inr (b @ bs)))"

subsection \<open>\<open>bytes.decode('utf-8')\<close>\<close>

text \<open>
  The strict decoder: shortest form only, no surrogates, nothing above \<open>0x10FFFF\<close>; a
  truncated or ill-formed sequence raises \<open>UnicodeDecodeError\<close>.
\<close>

definition is_cont :: "byte \<Rightarrow> bool" where
  "is_cont b = (0x80 \<le> unat b \<and> unat b \<le> 0xBF)"

definition cont_bits :: "byte \<Rightarrow> nat" where
  "cont_bits b = unat b - 0x80"

definition second_ok3 :: "nat \<Rightarrow> byte \<Rightarrow> bool" where
  "second_ok3 n0 b1 =
     (if n0 = 0xE0 then 0xA0 \<le> unat b1 \<and> unat b1 \<le> 0xBF
      else if n0 = 0xED then 0x80 \<le> unat b1 \<and> unat b1 \<le> 0x9F
      else is_cont b1)"

definition second_ok4 :: "nat \<Rightarrow> byte \<Rightarrow> bool" where
  "second_ok4 n0 b1 =
     (if n0 = 0xF0 then 0x90 \<le> unat b1 \<and> unat b1 \<le> 0xBF
      else if n0 = 0xF4 then 0x80 \<le> unat b1 \<and> unat b1 \<le> 0x8F
      else is_cont b1)"

fun utf8_decode :: "bytes \<Rightarrow> py_exception + pystr" where
  "utf8_decode [] = Inr []"
| "utf8_decode (b0 # bs) =
     (if unat b0 < 0x80 then
        (case utf8_decode bs of Inl e \<Rightarrow> Inl e | Inr s \<Rightarrow> Inr (unat b0 # s))
      else if 0xC2 \<le> unat b0 \<and> unat b0 \<le> 0xDF then
        (case bs of
           b1 # r \<Rightarrow>
             if is_cont b1 then
               (case utf8_decode r of
                  Inl e \<Rightarrow> Inl e
                | Inr s \<Rightarrow> Inr (((unat b0 - 0xC0) * 64 + cont_bits b1) # s))
             else Inl UnicodeDecodeError
         | _ \<Rightarrow> Inl UnicodeDecodeError)
      else if 0xE0 \<le> unat b0 \<and> unat b0 \<le> 0xEF then
        (case bs of
           b1 # b2 # r \<Rightarrow>
             if second_ok3 (unat b0) b1 \<and> is_cont b2 then
               (case utf8_decode r of
                  Inl e \<Rightarrow> Inl e
                | Inr s \<Rightarrow>
                    Inr (((unat b0 - 0xE0) * 4096 + cont_bits b1 * 64 + cont_bits b2) # s))
             else Inl UnicodeDecodeError
         | _ \<Rightarrow> Inl UnicodeDecodeError)
      else if 0xF0 \<le> unat b0 \<and> unat b0 \<le> 0xF4 then
        (case bs of
           b1 # b2 # b3 # r \<Rightarrow>
             if second_ok4 (unat b0) b1 \<and> is_cont b2 \<and> is_cont b3 then
               (case utf8_decode r of
                  Inl e \<Rightarrow> Inl e
                | Inr s \<Rightarrow>
                    Inr (((unat b0 - 0xF0) * 262144 + cont_bits b1 * 4096
                          + cont_bits b2 * 64 + cont_bits b3) # s))
             else Inl UnicodeDecodeError
         | _ \<Rightarrow> Inl UnicodeDecodeError)
      else Inl UnicodeDecodeError)"

subsection \<open>\<open>struct.pack\<close> with the formats \<open>>I\<close> and \<open>>Q\<close>\<close>

text \<open>
  \<open>be_bytes k n\<close> is the \<open>k\<close>-byte big-endian form of \<open>n\<close>. \<open>struct.pack\<close> raises
  \<open>struct.error\<close> when the number does not fit the format.
\<close>

fun be_bytes :: "nat \<Rightarrow> nat \<Rightarrow> bytes" where
  "be_bytes 0 n = []"
| "be_bytes (Suc k) n = be_bytes k (n div 256) @ [of_nat (n mod 256)]"

definition struct_pack_I :: "nat \<Rightarrow> py_exception + bytes" where
  "struct_pack_I n = (if n < 2 ^ 32 then Inr (be_bytes 4 n) else Inl StructError)"

definition struct_pack_Q :: "nat \<Rightarrow> py_exception + bytes" where
  "struct_pack_Q n = (if n < 2 ^ 64 then Inr (be_bytes 8 n) else Inl StructError)"

text \<open>The number a big-endian byte string denotes (how a receiver reads a length field).\<close>

definition be_value :: "bytes \<Rightarrow> nat" where
  "be_value bs = foldl (\<lambda>acc b. acc * 256 + unat b) 0 bs"

section \<open>The transfer message (\<open>send_data\<close>, lines 172 to 177)\<close>

definition send_data_packet :: "pystr \<Rightarrow> bytes \<Rightarrow> py_exception + bytes" where
  "send_data_packet file_name file_data =
     (case utf8_encode file_name of
        Inl e \<Rightarrow> Inl e
      | Inr name_bytes \<Rightarrow>
          (case struct_pack_I (length name_bytes) of
             Inl e \<Rightarrow> Inl e
           | Inr l4 \<Rightarrow>
               (case struct_pack_Q (length file_data) of
                  Inl e \<Rightarrow> Inl e
                | Inr l8 \<Rightarrow> Inr (l4 @ name_bytes @ l8 @ file_data))))"

section \<open>The network and the host, as the operator sees them\<close>

text \<open>
  Every call on a socket is recorded, in order. An address is a pair of a host string and a
  port, as \<open>recvfrom\<close> returns it.
\<close>

datatype net_call =
    Socket_DGRAM
  | Socket_STREAM
  | SetTimeout nat
  | Bind nat
  | SetBroadcast
  | SendTo bytes nat
  | RecvFrom nat
  | Connect string nat
  | SendAll bytes
  | Recv nat
  | Close

text \<open>The lines the operator prints to the console.\<close>

datatype console_line =
    Broadcasting pystr nat
  | FailedToSendBroadcast
  | DiscoveryTimeoutReached
  | DiscoveredHeadset string
  | SocketTimedOut
  | ErrorDuringDiscovery
  | MeshWarning pystr
  | ErrorReadingTempFile
  | Connecting string nat
  | ConnectionEstablished
  | DataSent
  | ModelTransferred
  | FailedToTransfer
  | ConnectionTimedOut
  | FailedToTransferExc py_exception

text \<open>
  What the operator cannot decide is given by the world: whether \<open>bind\<close> and \<open>sendto\<close>
  raise, the successive values of \<open>time.time()\<close>, the successive outcomes of \<open>recvfrom\<close>
  (a datagram with its sender, or an exception; \<open>SocketTimeout\<close> is \<open>socket.timeout\<close>),
  the outcome of reading the exported file back, and the outcomes of \<open>connect\<close>,
  \<open>sendall\<close> and \<open>recv\<close> on the TCP socket. Creating a socket, \<open>settimeout\<close>,
  \<open>setsockopt\<close>, \<open>close\<close>, the Blender calls of the export and \<open>os.remove\<close> are taken
  to return.
\<close>

record world =
  udp_bind :: "py_exception option"
  udp_sendto :: "py_exception option"
  clock :: "real list"
  inbound :: "(py_exception + bytes \<times> (string \<times> nat)) list"
  temp_file :: "py_exception + bytes"
  tcp_connect :: "py_exception option"
  tcp_sendall :: "py_exception option"
  tcp_recv :: "py_exception + bytes"

section \<open>\<open>discover_headset\<close>\<close>

text \<open>
  The result is the exception that leaves the function, or the value returned (\<open>None\<close> or
  the address), with the socket calls made and the lines printed.
\<close>

record discovery =
  d_result :: "py_exception + string option"
  d_calls :: "net_call list"
  d_console :: "console_line list"

text \<open>
  The \<open>while True\<close> loop of lines 148 to 165. Each iteration reads the clock once and, if
  the time is not up, calls \<open>recvfrom\<close> once. The loop is blocked (\<open>None\<close>) when the world
  has no further clock value or no further outcome of \<open>recvfrom\<close> to give.
\<close>

fun listen ::
  "nat \<Rightarrow> real \<Rightarrow> real list \<Rightarrow> (py_exception + bytes \<times> (string \<times> nat)) list
     \<Rightarrow> net_call list \<Rightarrow> console_line list \<Rightarrow> discovery option" where
  "listen timeout start_time [] inb calls out = None"
| "listen timeout start_time (now # clk) inb calls out =
     (if now - start_time > real timeout then
        Some \<lparr>d_result = Inr None, d_calls = calls @ [Close],
              d_console = out @ [DiscoveryTimeoutReached]\<rparr>
      else
        (case inb of
           [] \<Rightarrow> None
         | Inl e # rest \<Rightarrow>
             Some \<lparr>d_result = Inr None, d_calls = calls @ [RecvFrom 1024, Close],
                   d_console =
                     out @ [if e = SocketTimeout then SocketTimedOut else ErrorDuringDiscovery]\<rparr>
         | Inr (data, addr) # rest \<Rightarrow>
             (case utf8_decode data of
                Inl e \<Rightarrow>
                  Some \<lparr>d_result = Inr None, d_calls = calls @ [RecvFrom 1024, Close],
                        d_console = out @ [ErrorDuringDiscovery]\<rparr>
              | Inr response \<Rightarrow>
                  if response = str_lit ''Headset-Discovery-Response'' then
                    Some \<lparr>d_result = Inr (Some (fst addr)),
                          d_calls = calls @ [RecvFrom 1024, Close],
                          d_console = out @ [DiscoveredHeadset (fst addr)]\<rparr>
                  else listen timeout start_time clk rest (calls @ [RecvFrom 1024]) out)))"

definition discover_headset :: "world \<Rightarrow> nat \<Rightarrow> pystr \<Rightarrow> discovery option" where
  "discover_headset w discovery_port code =
     (let timeout = 5; listen_port = 5002;
          calls0 = [Socket_DGRAM, SetTimeout timeout, Bind listen_port]
      in case udp_bind w of
           Some e \<Rightarrow> Some \<lparr>d_result = Inl e, d_calls = calls0, d_console = []\<rparr>
         | None \<Rightarrow>
             (case utf8_encode code of
                Inl e \<Rightarrow>
                  Some \<lparr>d_result = Inr None, d_calls = calls0 @ [SetBroadcast, Close],
                        d_console = [FailedToSendBroadcast]\<rparr>
              | Inr msg \<Rightarrow>
                  (case udp_sendto w of
                     Some e \<Rightarrow>
                       Some \<lparr>d_result = Inr None,
                             d_calls = calls0 @ [SetBroadcast, SendTo msg discovery_port, Close],
                             d_console = [FailedToSendBroadcast]\<rparr>
                   | None \<Rightarrow>
                       (case clock w of
                          [] \<Rightarrow> None
                        | start_time # clk \<Rightarrow>
                            listen timeout start_time clk (inbound w)
                              (calls0 @ [SetBroadcast, SendTo msg discovery_port])
                              [Broadcasting code discovery_port]))))"

section \<open>\<open>send_data\<close>\<close>

text \<open>
  \<open>send_data\<close> returns nothing: what it does is the socket calls it makes and the lines it
  prints. It never calls \<open>self.report\<close>, so the reports it makes to the host are none.
  The packet is built before the \<open>try\<close>, so an exception there leaves the function.
\<close>

datatype level = ERROR | INFO

datatype status_message =
    CodeMustBe4Characters
  | CouldNotDiscoverHeadset
  | NoObjectsSelected
  | ActiveNotAmongSelected
  | NoDuplicatesCreated
  | ErrorReadingTemporaryFile py_exception
  | TransferStarted string

record transfer =
  t_raised :: "py_exception option"
  t_calls :: "net_call list"
  t_console :: "console_line list"
  t_reports :: "(level \<times> status_message) list"

text \<open>The two \<open>except\<close> clauses of lines 195 to 198.\<close>

definition handler :: "py_exception \<Rightarrow> net_call list \<Rightarrow> console_line list \<Rightarrow> transfer" where
  "handler e calls out =
     \<lparr>t_raised = None, t_calls = calls,
      t_console = out @ [if e = SocketTimeout then ConnectionTimedOut else FailedToTransferExc e],
      t_reports = []\<rparr>"

definition send_data :: "world \<Rightarrow> bytes \<Rightarrow> pystr \<Rightarrow> string \<Rightarrow> nat \<Rightarrow> transfer" where
  "send_data w file_data file_name headset_ip port =
     (case send_data_packet file_name file_data of
        Inl e \<Rightarrow> \<lparr>t_raised = Some e, t_calls = [], t_console = [], t_reports = []\<rparr>
      | Inr packet \<Rightarrow>
          (let calls0 = [Socket_STREAM, SetTimeout 30, Connect headset_ip port];
               out0 = [Connecting headset_ip port]
           in case tcp_connect w of
                Some e \<Rightarrow> handler e calls0 out0
              | None \<Rightarrow>
                  (let calls1 = calls0 @ [SendAll packet];
                       out1 = out0 @ [ConnectionEstablished]
                   in case tcp_sendall w of
                        Some e \<Rightarrow> handler e calls1 out1
                      | None \<Rightarrow>
                          (let calls2 = calls1 @ [Recv 1024]; out2 = out1 @ [DataSent]
                           in case tcp_recv w of
                                Inl e \<Rightarrow> handler e calls2 out2
                              | Inr response \<Rightarrow>
                                  (case utf8_decode response of
                                     Inl e \<Rightarrow> handler e (calls2 @ [Close]) out2
                                   | Inr text \<Rightarrow>
                                       \<lparr>t_raised = None, t_calls = calls2 @ [Close],
                                        t_console =
                                          out2 @ [if text = str_lit ''Success''
                                                  then ModelTransferred else FailedToTransfer],
                                        t_reports = []\<rparr>)))))"

section \<open>\<open>execute\<close>\<close>

text \<open>
  Functions of Python and Blender that the operator calls and that are not part of the
  repository: \<open>str.isspace\<close> (what \<open>strip\<close> removes), the full upper-case mapping of one
  code point (what \<open>upper\<close> applies to each), and \<open>bpy.path.clean_name\<close>.
\<close>

record lib =
  isspace :: "nat \<Rightarrow> bool"
  to_upper :: "nat \<Rightarrow> pystr"
  clean_name :: "pystr \<Rightarrow> pystr"

definition py_strip :: "lib \<Rightarrow> pystr \<Rightarrow> pystr" where
  "py_strip l s = rev (dropWhile (isspace l) (rev (dropWhile (isspace l) s)))"

definition py_upper :: "lib \<Rightarrow> pystr \<Rightarrow> pystr" where
  "py_upper l s = concat (map (to_upper l) s)"

text \<open>
  A scene object: its name, and whether \<open>to_mesh()\<close> gives a mesh for it. The add-on
  preferences are part of the context the operator is given.
\<close>

record obj =
  obj_name :: pystr
  has_mesh :: bool

record preferences =
  pref_port :: int
  pref_discovery_port :: int

record bl_context =
  headset_connection_code :: pystr
  selected_objects :: "obj list"
  active :: "obj option"
  addon_preferences :: preferences

datatype retval = CANCELLED | FINISHED

text \<open>
  What one call of \<open>execute\<close> does: the exception that leaves it or the set it returns,
  the reports made with \<open>self.report\<close>, the socket calls made by \<open>execute\<close> itself (on the
  thread that called it), the lines printed, and the arguments of the thread it starts,
  if it starts one.
\<close>

record execution =
  e_result :: "py_exception + retval"
  e_reports :: "(level \<times> status_message) list"
  e_calls :: "net_call list"
  e_console :: "console_line list"
  e_thread :: "(bytes \<times> pystr \<times> string \<times> nat) option"

definition cancelled ::
  "status_message \<Rightarrow> net_call list \<Rightarrow> console_line list \<Rightarrow> execution" where
  "cancelled m calls out =
     \<lparr>e_result = Inr CANCELLED, e_reports = [(ERROR, m)], e_calls = calls, e_console = out,
      e_thread = None\<rparr>"

text \<open>Lines 38 to 122, once an address is known.\<close>

definition export_and_start ::
  "lib \<Rightarrow> bl_context \<Rightarrow> world \<Rightarrow> string \<Rightarrow> nat \<Rightarrow> net_call list \<Rightarrow> console_line list
     \<Rightarrow> execution" where
  "export_and_start l ctx w headset_ip port calls out =
     (if selected_objects ctx = [] then cancelled NoObjectsSelected calls out
      else
        (case active ctx of
           None \<Rightarrow> cancelled ActiveNotAmongSelected calls out
         | Some active_object \<Rightarrow>
             if active_object \<notin> set (selected_objects ctx) then
               cancelled ActiveNotAmongSelected calls out
             else
               (let file_name = clean_name l (obj_name active_object) @ str_lit ''.glb'';
                    duplicates = filter has_mesh (selected_objects ctx);
                    out1 = out @ map (\<lambda>ob. MeshWarning (obj_name ob))
                                   (filter (\<lambda>ob. \<not> has_mesh ob) (selected_objects ctx))
                in if duplicates = [] then cancelled NoDuplicatesCreated calls out1
                   else
                     (case temp_file w of
                        Inl e \<Rightarrow>
                          cancelled (ErrorReadingTemporaryFile e) calls
                            (out1 @ [ErrorReadingTempFile])
                      | Inr file_data \<Rightarrow>
                          \<lparr>e_result = Inr FINISHED,
                           e_reports = [(INFO, TransferStarted headset_ip)],
                           e_calls = calls, e_console = out1,
                           e_thread = Some (file_data, file_name, headset_ip, port)\<rparr>))))"

definition execute :: "lib \<Rightarrow> bl_context \<Rightarrow> world \<Rightarrow> execution option" where
  "execute l ctx w =
     (let code = py_upper l (py_strip l (headset_connection_code ctx))
      in if length code \<noteq> 4 then Some (cancelled CodeMustBe4Characters [] [])
         else
           (let port = 5000; discovery_port = 5001
            in case discover_headset w discovery_port code of
                 None \<Rightarrow> None
               | Some d \<Rightarrow>
                   (case d_result d of
                      Inl e \<Rightarrow>
                        Some \<lparr>e_result = Inl e, e_reports = [], e_calls = d_calls d,
                              e_console = d_console d, e_thread = None\<rparr>
                    | Inr None \<Rightarrow>
                        Some (cancelled CouldNotDiscoverHeadset (d_calls d) (d_console d))
                    | Inr (Some headset_ip) \<Rightarrow>
                        if headset_ip = [] then
                          Some (cancelled CouldNotDiscoverHeadset (d_calls d) (d_console d))
                        else
                          Some (export_and_start l ctx w headset_ip port
                                  (d_calls d) (d_console d)))))"

text \<open>The thread started at line 120 runs \<open>send_data\<close> on the arguments it was given.\<close>

definition worker :: "world \<Rightarrow> bytes \<times> pystr \<times> string \<times> nat \<Rightarrow> transfer" where
  "worker w args =
     (case args of (file_data, file_name, headset_ip, port) \<Rightarrow>
        send_data w file_data file_name headset_ip port)"

section \<open>Vocabulary of the properties, and example runs\<close>

text \<open>The calls that belong to the TCP transfer alone.\<close>

fun tcp_call :: "net_call \<Rightarrow> bool" where
  "tcp_call Socket_STREAM = True"
| "tcp_call (Connect a p) = True"
| "tcp_call (SendAll m) = True"
| "tcp_call (Recv n) = True"
| "tcp_call c = False"

text \<open>
  A call made during discovery uses the constants of the source when its timeout is 5
  seconds, it binds port 5002 and it sends to port 5001; a call made during the transfer
  when its timeout is 30 seconds and it connects to port 5000.
\<close>

fun uses_discovery_constants :: "net_call \<Rightarrow> bool" where
  "uses_discovery_constants (SetTimeout t) = (t = 5)"
| "uses_discovery_constants (Bind p) = (p = 5002)"
| "uses_discovery_constants (SendTo m p) = (p = 5001)"
| "uses_discovery_constants c = True"

fun uses_transfer_constants :: "net_call \<Rightarrow> bool" where
  "uses_transfer_constants (SetTimeout t) = (t = 30)"
| "uses_transfer_constants (Connect a p) = (p = 5000)"
| "uses_transfer_constants c = True"

text \<open>The bytes of the two texts of the protocol.\<close>

definition response_bytes :: bytes where
  "response_bytes =
     [72, 101, 97, 100, 115, 101, 116, 45, 68, 105, 115, 99, 111, 118, 101, 114, 121, 45,
      82, 101, 115, 112, 111, 110, 115, 101]"

definition success_bytes :: bytes where
  "success_bytes = [83, 117, 99, 99, 101, 115, 115]"

text \<open>
  Library functions for the example runs. They agree with Python and Blender on ASCII
  text, which is all the examples contain.
\<close>

definition ascii_lib :: lib where
  "ascii_lib =
     \<lparr>isspace = (\<lambda>c. (9 \<le> c \<and> c \<le> 13) \<or> (28 \<le> c \<and> c \<le> 32)),
      to_upper = (\<lambda>c. [if 97 \<le> c \<and> c \<le> 122 then c - 32 else c]),
      clean_name =
        map (\<lambda>c. if (48 \<le> c \<and> c \<le> 57) \<or> (65 \<le> c \<and> c \<le> 90) \<or> (97 \<le> c \<and> c \<le> 122)
                  then c else 95)\<rparr>"

definition chair :: obj where
  "chair = \<lparr>obj_name = str_lit ''Chair'', has_mesh = True\<rparr>"

definition scene_chair :: bl_context where
  "scene_chair =
     \<lparr>headset_connection_code = str_lit ''ab12'', selected_objects = [chair],
      active = Some chair,
      addon_preferences = \<lparr>pref_port = 5000, pref_discovery_port = 5001\<rparr>\<rparr>"

text \<open>
  A headset at 192.168.1.42 answers the broadcast at once, accepts the connection and
  acknowledges with \<open>Success\<close>.
\<close>

definition world_ok :: world where
  "world_ok =
     \<lparr>udp_bind = None, udp_sendto = None, clock = [0, 1],
      inbound = [Inr (response_bytes, (''192.168.1.42'', 5001))],
      temp_file = Inr [1, 2, 3, 4, 5, 6, 7, 8, 9, 10],
      tcp_connect = None, tcp_sendall = None, tcp_recv = Inr success_bytes\<rparr>"




text \<open>
  Three more worlds: port 5002 is taken when discovery binds it; the headset answers the
  broadcast and then refuses the TCP connection; nobody answers the broadcast.
\<close>

definition world_port_busy :: world where
  "world_port_busy = world_ok\<lparr>udp_bind := Some OSError\<rparr>"

definition world_refused :: world where
  "world_refused = world_ok\<lparr>tcp_connect := Some OSError\<rparr>"

definition world_silent :: world where
  "world_silent = world_ok\<lparr>inbound := [Inl SocketTimeout]\<rparr>"

section \<open>Properties\<close>

subsection \<open>Length fields and the packet\<close>

lemma length_be_bytes: "length (be_bytes k n) = k"
  by (induction k arbitrary: n) simp_all

lemma be_value_snoc: "be_value (bs @ [b]) = be_value bs * 256 + unat b"
  by (simp add: be_value_def)

lemma be_value_be_bytes: "n < 256 ^ k \<Longrightarrow> be_value (be_bytes k n) = n"
proof (induction k arbitrary: n)
  case 0
  then show ?case by (simp add: be_value_def)
next
  case (Suc k)
  from Suc.prems have "n div 256 < 256 ^ k"
    by (simp add: less_mult_imp_div_less mult.commute)
  then have "be_value (be_bytes k (n div 256)) = n div 256" by (rule Suc.IH)
  moreover have "unat (of_nat (n mod 256) :: byte) = n mod 256"
    by (simp add: unat_of_nat)
  ultimately show ?case by (simp add: be_value_snoc)
qed

lemma be_bytes_4_9: "be_bytes 4 9 = [0, 0, 0, 9]"
  by code_simp

lemma be_bytes_8_10: "be_bytes 8 10 = [0, 0, 0, 0, 0, 0, 0, 10]"
  by code_simp

lemma encode_Chair_glb:
  "utf8_encode (str_lit ''Chair.glb'') = Inr [67, 104, 97, 105, 114, 46, 103, 108, 98]"
  by (simp add: str_lit_def encode_cp_def)

lemma packet_in_range:
  assumes "utf8_encode N = Inr nb" "length nb < 2 ^ 32" "length P < 2 ^ 64"
  shows "send_data_packet N P = Inr (be_bytes 4 (length nb) @ nb @ be_bytes 8 (length P) @ P)"
  using assms by (simp add: send_data_packet_def struct_pack_I_def struct_pack_Q_def)

text \<open>
  Claim C1. The transfer message is the 4-byte big-endian byte length of the file name, the
  UTF-8 bytes of the name, the 8-byte big-endian byte length of the payload, and the payload:
  for every name that \<open>encode('utf-8')\<close> accepts, with a byte length that fits 32 bits, and
  every payload whose length fits 64 bits, \<open>send_data\<close> builds exactly that packet, and
  each length field has its width and denotes the length. For the name \<open>Chair.glb\<close> and any
  10-byte payload the message has 31 bytes, starts with big-endian 9, and its bytes 14 to 21
  are big-endian 10.
\<close>

theorem packet_layout:
  "(\<forall>N P nb. utf8_encode N = Inr nb \<and> length nb < 2 ^ 32 \<and> length P < 2 ^ 64 \<longrightarrow>
      send_data_packet N P
        = Inr (be_bytes 4 (length nb) @ nb @ be_bytes 8 (length P) @ P)
      \<and> length (be_bytes 4 (length nb)) = 4
      \<and> be_value (be_bytes 4 (length nb)) = length nb
      \<and> length (be_bytes 8 (length P)) = 8
      \<and> be_value (be_bytes 8 (length P)) = length P)
   \<and> (\<forall>P. length P = 10 \<longrightarrow>
        (\<exists>m. send_data_packet (str_lit ''Chair.glb'') P = Inr m
           \<and> length m = 31
           \<and> take 4 m = [0, 0, 0, 9]
           \<and> take 8 (drop 13 m) = [0, 0, 0, 0, 0, 0, 0, 10]))"
proof (intro conjI allI impI)
  fix N :: pystr and P :: bytes and nb :: bytes
  assume h: "utf8_encode N = Inr nb \<and> length nb < 2 ^ 32 \<and> length P < 2 ^ 64"
  then show "send_data_packet N P
        = Inr (be_bytes 4 (length nb) @ nb @ be_bytes 8 (length P) @ P)"
    by (simp add: packet_in_range)
  show "length (be_bytes 4 (length nb)) = 4" by (rule length_be_bytes)
  from h have "length nb < 256 ^ 4" by simp
  then show "be_value (be_bytes 4 (length nb)) = length nb" by (rule be_value_be_bytes)
  show "length (be_bytes 8 (length P)) = 8" by (rule length_be_bytes)
  from h have "length P < 256 ^ 8" by simp
  then show "be_value (be_bytes 8 (length P)) = length P" by (rule be_value_be_bytes)
next
  fix P :: bytes
  assume l: "length P = 10"
  let ?nb = "[67, 104, 97, 105, 114, 46, 103, 108, 98] :: bytes"
  let ?m = "[0, 0, 0, 9] @ ?nb @ [0, 0, 0, 0, 0, 0, 0, 10] @ P"
  have l1: "length ?nb = 9" by simp
  have "send_data_packet (str_lit ''Chair.glb'') P
          = Inr (be_bytes 4 9 @ ?nb @ be_bytes 8 10 @ P)"
    using packet_in_range [OF encode_Chair_glb, of P, unfolded l1 l] by simp
  then have "send_data_packet (str_lit ''Chair.glb'') P = Inr ?m"
    unfolding be_bytes_4_9 be_bytes_8_10 .
  moreover have "length ?m = 31" using l by simp
  moreover have "take 4 ?m = [0, 0, 0, 9]" by simp
  moreover have "take 8 (drop 13 ?m) = [0, 0, 0, 0, 0, 0, 0, 10]" by simp
  ultimately show "\<exists>m. send_data_packet (str_lit ''Chair.glb'') P = Inr m
           \<and> length m = 31
           \<and> take 4 m = [0, 0, 0, 9]
           \<and> take 8 (drop 13 m) = [0, 0, 0, 0, 0, 0, 0, 10]"
    by blast
qed

theorem packet_layout_witness:
  "utf8_encode (str_lit ''Chair.glb'') = Inr [67, 104, 97, 105, 114, 46, 103, 108, 98]
   \<and> send_data_packet (str_lit ''Chair.glb'') [1, 2, 3, 4, 5, 6, 7, 8, 9, 10]
       = Inr ([0, 0, 0, 9] @ [67, 104, 97, 105, 114, 46, 103, 108, 98]
              @ [0, 0, 0, 0, 0, 0, 0, 10] @ [1, 2, 3, 4, 5, 6, 7, 8, 9, 10])
   \<and> be_value [0, 0, 0, 9] = 9
   \<and> be_value [0, 0, 0, 0, 0, 0, 0, 10] = 10"
proof -
  let ?nb = "[67, 104, 97, 105, 114, 46, 103, 108, 98] :: bytes"
  let ?P = "[1, 2, 3, 4, 5, 6, 7, 8, 9, 10] :: bytes"
  have h: "utf8_encode (str_lit ''Chair.glb'') = Inr ?nb \<and> length ?nb < 2 ^ 32
             \<and> length ?P < 2 ^ 64"
    by (simp add: encode_Chair_glb)
  have l1: "length ?nb = 9" and l2: "length ?P = 10" by simp_all
  note inst = packet_layout [THEN conjunct1, rule_format, OF h, unfolded l1 l2 be_bytes_4_9 be_bytes_8_10]
  from inst h show ?thesis by simp
qed

subsection \<open>ASCII text and the strict decoder\<close>

lemma bound2: "194 \<le> (n::nat) \<Longrightarrow> 128 \<le> (n - 192) * 64 + k"
  by arith

lemma bound3:
  "second_ok3 n b1 \<Longrightarrow> 224 \<le> n \<Longrightarrow> 128 \<le> (n - 224) * 4096 + cont_bits b1 * 64 + k"
  by (cases "n = 224") (auto simp: second_ok3_def cont_bits_def)

lemma bound4:
  "second_ok4 n b1 \<Longrightarrow> 240 \<le> n
     \<Longrightarrow> 128 \<le> (n - 240) * 262144 + cont_bits b1 * 4096 + k2 + k"
  by (cases "n = 240") (auto simp: second_ok4_def cont_bits_def)

lemma decode_lead2:
  assumes "\<not> unat b0 < 0x80" "0xC2 \<le> unat b0 \<and> unat b0 \<le> 0xDF"
    "utf8_decode (b0 # bs) = Inr s"
  shows "\<exists>c s'. s = c # s' \<and> 128 \<le> c"
proof (cases bs)
  case Nil
  with assms show ?thesis by simp
next
  case (Cons b1 r)
  with assms show ?thesis
    by (cases "utf8_decode r") (auto split: if_splits simp: bound2)
qed

lemma decode_lead3:
  assumes "\<not> unat b0 < 0x80" "\<not> (0xC2 \<le> unat b0 \<and> unat b0 \<le> 0xDF)"
    "0xE0 \<le> unat b0 \<and> unat b0 \<le> 0xEF" "utf8_decode (b0 # bs) = Inr s"
  shows "\<exists>c s'. s = c # s' \<and> 128 \<le> c"
proof (cases bs)
  case Nil
  with assms show ?thesis by simp
next
  case c1: (Cons b1 r1)
  show ?thesis
  proof (cases r1)
    case Nil
    with c1 assms show ?thesis by simp
  next
    case (Cons b2 r)
    with c1 assms show ?thesis
      by (cases "utf8_decode r") (auto split: if_splits simp: bound3)
  qed
qed

lemma decode_lead4:
  assumes "\<not> unat b0 < 0x80" "\<not> (0xC2 \<le> unat b0 \<and> unat b0 \<le> 0xDF)"
    "\<not> (0xE0 \<le> unat b0 \<and> unat b0 \<le> 0xEF)"
    "0xF0 \<le> unat b0 \<and> unat b0 \<le> 0xF4" "utf8_decode (b0 # bs) = Inr s"
  shows "\<exists>c s'. s = c # s' \<and> 128 \<le> c"
proof (cases bs)
  case Nil
  with assms show ?thesis by simp
next
  case c1: (Cons b1 r1)
  show ?thesis
  proof (cases r1)
    case Nil
    with c1 assms show ?thesis by simp
  next
    case c2: (Cons b2 r2)
    show ?thesis
    proof (cases r2)
      case Nil
      with c1 c2 assms show ?thesis by simp
    next
      case (Cons b3 r)
      with c1 c2 assms show ?thesis
        by (cases "utf8_decode r") (auto split: if_splits simp: bound4)
    qed
  qed
qed

lemma decode_lead:
  assumes "utf8_decode (b0 # bs) = Inr s" "\<not> unat b0 < 0x80"
  shows "\<exists>c s'. s = c # s' \<and> 128 \<le> c"
proof -
  consider "0xC2 \<le> unat b0 \<and> unat b0 \<le> 0xDF"
    | "\<not> (0xC2 \<le> unat b0 \<and> unat b0 \<le> 0xDF)" "0xE0 \<le> unat b0 \<and> unat b0 \<le> 0xEF"
    | "\<not> (0xC2 \<le> unat b0 \<and> unat b0 \<le> 0xDF)" "\<not> (0xE0 \<le> unat b0 \<and> unat b0 \<le> 0xEF)"
      "0xF0 \<le> unat b0 \<and> unat b0 \<le> 0xF4"
    | "\<not> (0xC2 \<le> unat b0 \<and> unat b0 \<le> 0xDF)" "\<not> (0xE0 \<le> unat b0 \<and> unat b0 \<le> 0xEF)"
      "\<not> (0xF0 \<le> unat b0 \<and> unat b0 \<le> 0xF4)"
    by blast
  then show ?thesis
  proof cases
    case 1
    with assms show ?thesis by (intro decode_lead2)
  next
    case 2
    with assms show ?thesis by (intro decode_lead3)
  next
    case 3
    with assms show ?thesis by (intro decode_lead4)
  next
    case 4
    with assms show ?thesis by simp
  qed
qed

text \<open>Text of code points below 128 is decoded from its own bytes only.\<close>

lemma decode_ascii:
  "utf8_decode bs = Inr s \<Longrightarrow> \<forall>c\<in>set s. c < 128 \<Longrightarrow> bs = map of_nat s"
proof (induction bs arbitrary: s)
  case Nil
  then show ?case by simp
next
  case (Cons b0 bs)
  show ?case
  proof (cases "unat b0 < 0x80")
    case True
    with Cons.prems(1) obtain s' where s': "utf8_decode bs = Inr s'" "s = unat b0 # s'"
      by (cases "utf8_decode bs") auto
    with Cons.prems(2) have "\<forall>c\<in>set s'. c < 128" by simp
    with Cons.IH[OF s'(1)] have "bs = map of_nat s'" by simp
    with s' show ?thesis by simp
  next
    case False
    from decode_lead[OF Cons.prems(1) False] obtain c s' where "s = c # s'" "128 \<le> c"
      by blast
    with Cons.prems(2) show ?thesis by auto
  qed
qed

lemma decode_Success_iff:
  "utf8_decode bs = Inr (str_lit ''Success'') \<longleftrightarrow> bs = [83, 117, 99, 99, 101, 115, 115]"
proof
  assume d: "utf8_decode bs = Inr (str_lit ''Success'')"
  have "\<forall>c\<in>set (str_lit ''Success''). c < 128" by (simp add: str_lit_def)
  with d have "bs = map of_nat (str_lit ''Success'')" by (rule decode_ascii)
  then show "bs = [83, 117, 99, 99, 101, 115, 115]" by (simp add: str_lit_def)
next
  assume "bs = [83, 117, 99, 99, 101, 115, 115]"
  then show "utf8_decode bs = Inr (str_lit ''Success'')" by (simp add: str_lit_def)
qed

lemma decode_Response_iff:
  "utf8_decode bs = Inr (str_lit ''Headset-Discovery-Response'') \<longleftrightarrow>
     bs = [72, 101, 97, 100, 115, 101, 116, 45, 68, 105, 115, 99, 111, 118, 101, 114, 121, 45,
           82, 101, 115, 112, 111, 110, 115, 101]"
proof
  assume d: "utf8_decode bs = Inr (str_lit ''Headset-Discovery-Response'')"
  have "\<forall>c\<in>set (str_lit ''Headset-Discovery-Response''). c < 128" by (simp add: str_lit_def)
  with d have "bs = map of_nat (str_lit ''Headset-Discovery-Response'')" by (rule decode_ascii)
  then show "bs = [72, 101, 97, 100, 115, 101, 116, 45, 68, 105, 115, 99, 111, 118, 101, 114, 121, 45,
           82, 101, 115, 112, 111, 110, 115, 101]" by (simp add: str_lit_def)
next
  assume "bs = [72, 101, 97, 100, 115, 101, 116, 45, 68, 105, 115, 99, 111, 118, 101, 114, 121, 45,
           82, 101, 115, 112, 111, 110, 115, 101]"
  then show "utf8_decode bs = Inr (str_lit ''Headset-Discovery-Response'')"
    by (simp add: str_lit_def)
qed

lemma decode_raises_aux:
  "length bs \<le> n \<Longrightarrow> utf8_decode bs = Inl e \<Longrightarrow> e = UnicodeDecodeError"
proof (induction n arbitrary: bs)
  case 0
  then show ?case by simp
next
  case (Suc n)
  show ?case
  proof (cases bs)
    case Nil
    with Suc.prems show ?thesis by simp
  next
    case (Cons b0 r0)
    have IH: "length r \<le> n \<Longrightarrow> utf8_decode r = Inl e \<Longrightarrow> e = UnicodeDecodeError" for r
      using Suc.IH by blast
    from Suc.prems(1) Cons have len: "length r0 \<le> n" by simp
    consider (one) "unat b0 < 0x80"
      | (two) "\<not> unat b0 < 0x80" "0xC2 \<le> unat b0 \<and> unat b0 \<le> 0xDF"
      | (three) "\<not> unat b0 < 0x80" "\<not> (0xC2 \<le> unat b0 \<and> unat b0 \<le> 0xDF)"
          "0xE0 \<le> unat b0 \<and> unat b0 \<le> 0xEF"
      | (four) "\<not> unat b0 < 0x80" "\<not> (0xC2 \<le> unat b0 \<and> unat b0 \<le> 0xDF)"
          "\<not> (0xE0 \<le> unat b0 \<and> unat b0 \<le> 0xEF)" "0xF0 \<le> unat b0 \<and> unat b0 \<le> 0xF4"
      | (bad) "\<not> unat b0 < 0x80" "\<not> (0xC2 \<le> unat b0 \<and> unat b0 \<le> 0xDF)"
          "\<not> (0xE0 \<le> unat b0 \<and> unat b0 \<le> 0xEF)"
          "\<not> (0xF0 \<le> unat b0 \<and> unat b0 \<le> 0xF4)"
      by blast
    then show ?thesis
    proof cases
      case one
      with Suc.prems(2) Cons have "utf8_decode r0 = Inl e"
        by (cases "utf8_decode r0") simp_all
      with len show ?thesis by (rule IH)
    next
      case two
      show ?thesis
      proof (cases r0)
        case Nil
        with two Suc.prems(2) Cons show ?thesis by simp
      next
        case c1: (Cons b1 r)
        show ?thesis
        proof (cases "is_cont b1")
          case True
          with two Suc.prems(2) Cons c1 have "utf8_decode r = Inl e"
            by (cases "utf8_decode r") simp_all
          moreover from len c1 have "length r \<le> n" by simp
          ultimately show ?thesis by (intro IH)
        next
          case False
          with two Suc.prems(2) Cons c1 show ?thesis by simp
        qed
      qed
    next
      case three
      show ?thesis
      proof (cases r0)
        case Nil
        with three Suc.prems(2) Cons show ?thesis by simp
      next
        case c1: (Cons b1 r1)
        show ?thesis
        proof (cases r1)
          case Nil
          with three Suc.prems(2) Cons c1 show ?thesis by simp
        next
          case c2: (Cons b2 r)
          show ?thesis
          proof (cases "second_ok3 (unat b0) b1 \<and> is_cont b2")
            case True
            with three Suc.prems(2) Cons c1 c2 have "utf8_decode r = Inl e"
              by (cases "utf8_decode r") simp_all
            moreover from len c1 c2 have "length r \<le> n" by simp
            ultimately show ?thesis by (intro IH)
          next
            case False
            with three Suc.prems(2) Cons c1 c2 show ?thesis by auto
          qed
        qed
      qed
    next
      case four
      show ?thesis
      proof (cases r0)
        case Nil
        with four Suc.prems(2) Cons show ?thesis by simp
      next
        case c1: (Cons b1 r1)
        show ?thesis
        proof (cases r1)
          case Nil
          with four Suc.prems(2) Cons c1 show ?thesis by simp
        next
          case c2: (Cons b2 r2)
          show ?thesis
          proof (cases r2)
            case Nil
            with four Suc.prems(2) Cons c1 c2 show ?thesis by simp
          next
            case c3: (Cons b3 r)
            show ?thesis
            proof (cases "second_ok4 (unat b0) b1 \<and> is_cont b2 \<and> is_cont b3")
              case True
              with four Suc.prems(2) Cons c1 c2 c3 have "utf8_decode r = Inl e"
                by (cases "utf8_decode r") simp_all
              moreover from len c1 c2 c3 have "length r \<le> n" by simp
              ultimately show ?thesis by (intro IH)
            next
              case False
              with four Suc.prems(2) Cons c1 c2 c3 show ?thesis by auto
            qed
          qed
        qed
      qed
    next
      case bad
      with Suc.prems(2) Cons show ?thesis by simp
    qed
  qed
qed

lemma decode_raises: "utf8_decode bs = Inl e \<Longrightarrow> e = UnicodeDecodeError"
  using decode_raises_aux [of bs "length bs" e] by simp

lemma send_data_received:
  assumes "send_data_packet file_name file_data = Inr packet" "tcp_connect w = None"
    "tcp_sendall w = None" "tcp_recv w = Inr response"
  shows "send_data w file_data file_name headset_ip port =
     (let calls = [Socket_STREAM, SetTimeout 30, Connect headset_ip port, SendAll packet,
                   Recv 1024, Close];
          out = [Connecting headset_ip port, ConnectionEstablished, DataSent]
      in case utf8_decode response of
           Inl e \<Rightarrow> handler e calls out
         | Inr text \<Rightarrow>
             \<lparr>t_raised = None, t_calls = calls,
              t_console = out @ [if text = str_lit ''Success''
                                 then ModelTransferred else FailedToTransfer],
              t_reports = []\<rparr>)"
  using assms by (simp add: send_data_def Let_def split: sum.splits)

text \<open>
  Claim C5. For every acknowledgment that the transfer client receives, the transfer is
  reported as successful exactly when the bytes decode to the text \<open>Success\<close>, that is, when
  they are the seven bytes of that text; anything else ends in one of the two failure
  lines. The empty acknowledgment and the bytes of \<open>Error\<close> give the failure line of line
  194, and bytes that are not UTF-8 the failure line of the exception handler.
\<close>

theorem ack_success_iff:
  assumes "send_data_packet file_name file_data = Inr packet" "tcp_connect w = None"
    "tcp_sendall w = None" "tcp_recv w = Inr response"
  shows
    "(last (t_console (send_data w file_data file_name headset_ip port)) = ModelTransferred
        \<longleftrightarrow> utf8_decode response = Inr (str_lit ''Success''))
     \<and> (utf8_decode response = Inr (str_lit ''Success'')
        \<longleftrightarrow> response = [83, 117, 99, 99, 101, 115, 115])
     \<and> (utf8_decode response \<noteq> Inr (str_lit ''Success'') \<longrightarrow>
          last (t_console (send_data w file_data file_name headset_ip port))
            \<in> {FailedToTransfer, FailedToTransferExc UnicodeDecodeError})
     \<and> (response = [] \<longrightarrow>
          last (t_console (send_data w file_data file_name headset_ip port)) = FailedToTransfer)
     \<and> (response = [69, 114, 114, 111, 114] \<longrightarrow>
          last (t_console (send_data w file_data file_name headset_ip port)) = FailedToTransfer)
     \<and> (response = [255] \<longrightarrow>
          last (t_console (send_data w file_data file_name headset_ip port))
            = FailedToTransferExc UnicodeDecodeError)"
proof -
  let ?out = "last (t_console (send_data w file_data file_name headset_ip port))"
  note sd = send_data_received [OF assms, of headset_ip port]
  have failed: "?out \<in> {FailedToTransfer, FailedToTransferExc UnicodeDecodeError}"
    if "utf8_decode response \<noteq> Inr (str_lit ''Success'')"
  proof (cases "utf8_decode response")
    case (Inl e)
    then have "e = UnicodeDecodeError" by (rule decode_raises)
    with Inl show ?thesis by (simp add: sd handler_def)
  next
    case (Inr s)
    with that show ?thesis by (simp add: sd)
  qed
  have ok: "?out = ModelTransferred" if "utf8_decode response = Inr (str_lit ''Success'')"
    using that by (simp add: sd)
  have c1: "?out = ModelTransferred \<longleftrightarrow> utf8_decode response = Inr (str_lit ''Success'')"
  proof
    assume mt: "?out = ModelTransferred"
    show "utf8_decode response = Inr (str_lit ''Success'')"
    proof (rule ccontr)
      assume "utf8_decode response \<noteq> Inr (str_lit ''Success'')"
      then have "?out \<in> {FailedToTransfer, FailedToTransferExc UnicodeDecodeError}"
        by (rule failed)
      with mt show False by simp
    qed
  next
    assume "utf8_decode response = Inr (str_lit ''Success'')"
    then show "?out = ModelTransferred" by (rule ok)
  qed
  have c4: "?out = FailedToTransfer" if "response = []"
    using that by (simp add: sd str_lit_def)
  have c5: "?out = FailedToTransfer" if "response = [69, 114, 114, 111, 114]"
    using that by (simp add: sd str_lit_def)
  have c6: "?out = FailedToTransferExc UnicodeDecodeError" if "response = [255]"
    using that by (simp add: sd handler_def)
  from c1 decode_Success_iff [of response] failed c4 c5 c6 show ?thesis by blast
qed

lemma packet_Chair_glb:
  "send_data_packet (str_lit ''Chair.glb'') [1, 2, 3, 4, 5, 6, 7, 8, 9, 10]
     = Inr ([0, 0, 0, 9, 67, 104, 97, 105, 114, 46, 103, 108, 98,
             0, 0, 0, 0, 0, 0, 0, 10, 1, 2, 3, 4, 5, 6, 7, 8, 9, 10])"
proof -
  have l1: "length ([67, 104, 97, 105, 114, 46, 103, 108, 98] :: bytes) = 9"
    and l2: "length ([1, 2, 3, 4, 5, 6, 7, 8, 9, 10] :: bytes) = 10" by simp_all
  show ?thesis
    using packet_in_range [OF encode_Chair_glb, of "[1, 2, 3, 4, 5, 6, 7, 8, 9, 10]",
        unfolded l1 l2 be_bytes_4_9 be_bytes_8_10]
    by simp
qed

theorem ack_success_iff_witness:
  "last (t_console (send_data world_ok [1, 2, 3, 4, 5, 6, 7, 8, 9, 10]
           (str_lit ''Chair.glb'') ''192.168.1.42'' 5000)) = ModelTransferred
   \<and> utf8_decode success_bytes = Inr (str_lit ''Success'')"
proof -
  have w: "tcp_connect world_ok = None" "tcp_sendall world_ok = None"
    "tcp_recv world_ok = Inr success_bytes"
    by (simp_all add: world_ok_def)
  have d: "utf8_decode success_bytes = Inr (str_lit ''Success'')"
    by (simp add: success_bytes_def str_lit_def)
  from ack_success_iff [OF packet_Chair_glb w, of "''192.168.1.42''" 5000] d
  show ?thesis by blast
qed

subsection \<open>The listening loop\<close>

lemma encode_AB12: "utf8_encode (str_lit ''AB12'') = Inr [65, 66, 49, 50]"
  by (simp add: str_lit_def encode_cp_def)

lemma decode_response_bytes:
  "utf8_decode response_bytes = Inr (str_lit ''Headset-Discovery-Response'')"
  using decode_Response_iff [of response_bytes] by (simp add: response_bytes_def)





text \<open>The calls the loop adds are receives and the closing of the socket.\<close>

lemma listen_calls:
  assumes "listen timeout start_time clk inb calls out = Some d"
  shows "set (d_calls d) \<subseteq> set calls \<union> {RecvFrom 1024, Close}"
  using assms
proof (induction clk arbitrary: inb calls)
  case Nil
  then show ?case by simp
next
  case (Cons now clk)
  show ?case
  proof (cases "now - start_time > real timeout")
    case True
    with Cons.prems show ?thesis by auto
  next
    case late: False
    show ?thesis
    proof (cases inb)
      case Nil
      with late Cons.prems show ?thesis by simp
    next
      case c: (Cons r rest)
      show ?thesis
      proof (cases r)
        case (Inl e)
        with late c Cons.prems show ?thesis by auto
      next
        case (Inr p)
        obtain data addr where p: "p = (data, addr)" by (cases p)
        show ?thesis
        proof (cases "utf8_decode data")
          case bad: (Inl e)
          with late c Inr p Cons.prems show ?thesis by auto
        next
          case ok: (Inr s)
          show ?thesis
          proof (cases "s = str_lit ''Headset-Discovery-Response''")
            case True
            with late c Inr p ok Cons.prems show ?thesis by auto
          next
            case False
            with late c Inr p ok Cons.prems
            have "listen timeout start_time clk rest (calls @ [RecvFrom 1024]) out = Some d"
              by simp
            from Cons.IH [OF this] show ?thesis by auto
          qed
        qed
      qed
    qed
  qed
qed

subsection \<open>Discovery\<close>

lemma discover_started:
  assumes "udp_bind w = None" "udp_sendto w = None" "utf8_encode code = Inr msg"
    "clock w = start_time # clk"
  shows "discover_headset w discovery_port code
           = listen 5 start_time clk (inbound w)
               [Socket_DGRAM, SetTimeout 5, Bind 5002, SetBroadcast, SendTo msg discovery_port]
               [Broadcasting code discovery_port]"
  using assms by (simp add: discover_headset_def)

text \<open>
  Claim C4. When the first datagram that discovery receives carries exactly the text
  \<open>Headset-Discovery-Response\<close>, discovery returns the host part of that datagram's sender
  address; it has made one receive, and closing the socket is its last call, whatever else
  the network would still have delivered.
\<close>

theorem first_response_wins:
  assumes "udp_bind w = None" "udp_sendto w = None" "utf8_encode code = Inr msg"
    "clock w = start_time # now # clk" "\<not> now - start_time > 5"
    "inbound w = Inr (response_bytes, addr) # rest"
  shows "discover_headset w discovery_port code
           = Some \<lparr>d_result = Inr (Some (fst addr)),
                   d_calls = [Socket_DGRAM, SetTimeout 5, Bind 5002, SetBroadcast,
                              SendTo msg discovery_port, RecvFrom 1024, Close],
                   d_console = [Broadcasting code discovery_port,
                                DiscoveredHeadset (fst addr)]\<rparr>"
proof -
  have "discover_headset w discovery_port code
          = listen 5 start_time (now # clk) (Inr (response_bytes, addr) # rest)
              [Socket_DGRAM, SetTimeout 5, Bind 5002, SetBroadcast, SendTo msg discovery_port]
              [Broadcasting code discovery_port]"
    using discover_started [OF assms(1-4)] assms(6) by simp
  with assms(5) show ?thesis by (simp add: decode_response_bytes)
qed

theorem first_response_wins_witness:
  "discover_headset world_ok 5001 (str_lit ''AB12'')
     = Some \<lparr>d_result = Inr (Some ''192.168.1.42''),
             d_calls = [Socket_DGRAM, SetTimeout 5, Bind 5002, SetBroadcast,
                        SendTo [65, 66, 49, 50] 5001, RecvFrom 1024, Close],
             d_console = [Broadcasting (str_lit ''AB12'') 5001,
                          DiscoveredHeadset ''192.168.1.42'']\<rparr>"
proof -
  have w: "udp_bind world_ok = None" "udp_sendto world_ok = None"
    "clock world_ok = 0 # 1 # []" "\<not> (1::real) - 0 > 5"
    "inbound world_ok = Inr (response_bytes, (''192.168.1.42'', 5001)) # []"
    by (simp_all add: world_ok_def)
  from first_response_wins [OF w(1) w(2) encode_AB12 w(3) w(4) w(5), of 5001]
  show ?thesis by simp
qed










lemma code_ab12:
  "py_upper ascii_lib (py_strip ascii_lib (headset_connection_code scene_chair)) = str_lit ''AB12''"
  by (simp add: py_upper_def py_strip_def ascii_lib_def scene_chair_def str_lit_def)

lemma len_AB12: "length (str_lit ''AB12'') = 4"
  by (simp add: str_lit_def)

lemma clean_Chair: "clean_name ascii_lib (str_lit ''Chair'') = str_lit ''Chair''"
  by (simp add: ascii_lib_def str_lit_def)

lemma discover_world_ok:
  "discover_headset world_ok 5001 (str_lit ''AB12'')
     = Some \<lparr>d_result = Inr (Some ''192.168.1.42''),
             d_calls = [Socket_DGRAM, SetTimeout 5, Bind 5002, SetBroadcast,
                        SendTo [65, 66, 49, 50] 5001, RecvFrom 1024, Close],
             d_console = [Broadcasting (str_lit ''AB12'') 5001,
                          DiscoveredHeadset ''192.168.1.42'']\<rparr>"
proof -
  have w: "udp_bind world_ok = None" "udp_sendto world_ok = None" "clock world_ok = 0 # [1]"
    "inbound world_ok = [Inr (response_bytes, (''192.168.1.42'', 5001))]"
    by (simp_all add: world_ok_def)
  show ?thesis
    unfolding discover_started [OF w(1) w(2) encode_AB12 w(3)] w(4)
    by (simp add: decode_response_bytes)
qed

lemma execute_chair_ok:
  "execute ascii_lib scene_chair world_ok
     = Some \<lparr>e_result = Inr FINISHED,
             e_reports = [(INFO, TransferStarted ''192.168.1.42'')],
             e_calls = [Socket_DGRAM, SetTimeout 5, Bind 5002, SetBroadcast,
                        SendTo [65, 66, 49, 50] 5001, RecvFrom 1024, Close],
             e_console = [Broadcasting (str_lit ''AB12'') 5001,
                          DiscoveredHeadset ''192.168.1.42''],
             e_thread = Some ([1, 2, 3, 4, 5, 6, 7, 8, 9, 10], str_lit ''Chair.glb'',
                              ''192.168.1.42'', 5000)\<rparr>"
proof -
  have s: "selected_objects scene_chair = [chair]" "active scene_chair = Some chair"
    "has_mesh chair"
    "temp_file world_ok = Inr [1, 2, 3, 4, 5, 6, 7, 8, 9, 10]"
    by (simp_all add: scene_chair_def chair_def world_ok_def)
  have g: "clean_name ascii_lib (obj_name chair) @ str_lit ''.glb'' = str_lit ''Chair.glb''"
    by (simp add: chair_def ascii_lib_def str_lit_def)
  show ?thesis
    unfolding execute_def code_ab12 Let_def discover_world_ok
    by (simp add: export_and_start_def s g len_AB12)
qed

text \<open>
  Claim C8, on a failing bind. \<open>sock.bind\<close> at line 132 is outside every \<open>try\<close>: when
  port 5002 is taken, the \<open>OSError\<close> leaves \<open>discover_headset\<close> and \<open>execute\<close>. Nothing
  is reported, and the socket is not closed. A failing \<open>sendto\<close>, three lines below, is
  caught: the socket is closed and discovery returns no address without reading the clock.
\<close>

theorem bind_failure_escapes:
  "execute ascii_lib scene_chair world_port_busy
     = Some \<lparr>e_result = Inl OSError, e_reports = [],
             e_calls = [Socket_DGRAM, SetTimeout 5, Bind 5002], e_console = [],
             e_thread = None\<rparr>
   \<and> discover_headset world_port_busy 5001 (str_lit ''AB12'')
     = Some \<lparr>d_result = Inl OSError, d_calls = [Socket_DGRAM, SetTimeout 5, Bind 5002],
             d_console = []\<rparr>
   \<and> discover_headset (world_ok\<lparr>udp_sendto := Some OSError\<rparr>) 5001 (str_lit ''AB12'')
     = Some \<lparr>d_result = Inr None,
             d_calls = [Socket_DGRAM, SetTimeout 5, Bind 5002, SetBroadcast,
                        SendTo [65, 66, 49, 50] 5001, Close],
             d_console = [FailedToSendBroadcast]\<rparr>"
proof -
  have d: "discover_headset world_port_busy 5001 (str_lit ''AB12'')
     = Some \<lparr>d_result = Inl OSError, d_calls = [Socket_DGRAM, SetTimeout 5, Bind 5002],
             d_console = []\<rparr>"
    by (simp add: discover_headset_def world_port_busy_def world_ok_def)
  have e: "execute ascii_lib scene_chair world_port_busy
     = Some \<lparr>e_result = Inl OSError, e_reports = [],
             e_calls = [Socket_DGRAM, SetTimeout 5, Bind 5002], e_console = [],
             e_thread = None\<rparr>"
    unfolding execute_def code_ab12 Let_def d by (simp add: len_AB12)
  have s: "discover_headset (world_ok\<lparr>udp_sendto := Some OSError\<rparr>) 5001 (str_lit ''AB12'')
     = Some \<lparr>d_result = Inr None,
             d_calls = [Socket_DGRAM, SetTimeout 5, Bind 5002, SetBroadcast,
                        SendTo [65, 66, 49, 50] 5001, Close],
             d_console = [FailedToSendBroadcast]\<rparr>"
    by (simp add: discover_headset_def world_ok_def encode_AB12)
  from d e s show ?thesis by blast
qed

lemma worker_chair:
  "worker w ([1, 2, 3, 4, 5, 6, 7, 8, 9, 10], str_lit ''Chair.glb'', ''192.168.1.42'', 5000)
     = send_data w [1, 2, 3, 4, 5, 6, 7, 8, 9, 10] (str_lit ''Chair.glb'') ''192.168.1.42'' 5000"
  by (simp add: worker_def)

text \<open>
  Claim C6, on a refused connection. \<open>sock.close()\<close> at line 190 is reached only when
  \<open>recv\<close> has returned: when \<open>connect\<close> raises, the handler prints and \<open>send_data\<close>
  returns with the socket it created never closed. The run in which the headset accepts
  closes it.
\<close>

theorem connect_refused_socket_left_open:
  "send_data world_refused [1, 2, 3, 4, 5, 6, 7, 8, 9, 10] (str_lit ''Chair.glb'')
       ''192.168.1.42'' 5000
     = \<lparr>t_raised = None,
        t_calls = [Socket_STREAM, SetTimeout 30, Connect ''192.168.1.42'' 5000],
        t_console = [Connecting ''192.168.1.42'' 5000, FailedToTransferExc OSError],
        t_reports = []\<rparr>
   \<and> Close \<notin> set (t_calls (send_data world_refused [1, 2, 3, 4, 5, 6, 7, 8, 9, 10]
                               (str_lit ''Chair.glb'') ''192.168.1.42'' 5000))
   \<and> Close \<in> set (t_calls (send_data world_ok [1, 2, 3, 4, 5, 6, 7, 8, 9, 10]
                               (str_lit ''Chair.glb'') ''192.168.1.42'' 5000))"
proof -
  have p: "send_data_packet (str_lit ''Chair.glb'') [1, 2, 3, 4, 5, 6, 7, 8, 9, 10]
             = Inr ([0, 0, 0, 9] @ [67, 104, 97, 105, 114, 46, 103, 108, 98]
                    @ [0, 0, 0, 0, 0, 0, 0, 10] @ [1, 2, 3, 4, 5, 6, 7, 8, 9, 10])"
    using packet_Chair_glb by simp
  have a: "send_data world_refused [1, 2, 3, 4, 5, 6, 7, 8, 9, 10] (str_lit ''Chair.glb'')
       ''192.168.1.42'' 5000
     = \<lparr>t_raised = None,
        t_calls = [Socket_STREAM, SetTimeout 30, Connect ''192.168.1.42'' 5000],
        t_console = [Connecting ''192.168.1.42'' 5000, FailedToTransferExc OSError],
        t_reports = []\<rparr>"
    unfolding send_data_def p
    by (simp add: world_refused_def world_ok_def handler_def)
  have b: "Close \<in> set (t_calls (send_data world_ok [1, 2, 3, 4, 5, 6, 7, 8, 9, 10]
                               (str_lit ''Chair.glb'') ''192.168.1.42'' 5000))"
    unfolding send_data_def p
    by (simp add: world_ok_def success_bytes_def handler_def)
  from a b show ?thesis by simp
qed


text \<open>The calls the loop makes are receives, then one closing of the socket.\<close>

lemma listen_shape:
  assumes "listen timeout start_time clk inb calls out = Some d"
  shows "\<exists>n. d_calls d = calls @ replicate n (RecvFrom 1024) @ [Close]
             \<and> (\<forall>a. d_result d = Inr (Some a) \<longrightarrow> 0 < n)
             \<and> (\<forall>e. d_result d \<noteq> Inl e)"
  using assms
proof (induction clk arbitrary: inb calls)
  case Nil
  then show ?case by simp
next
  case (Cons now clk)
  have one: "calls @ [RecvFrom 1024, Close] = calls @ replicate 1 (RecvFrom 1024) @ [Close]"
    by simp
  show ?case
  proof (cases "now - start_time > real timeout")
    case True
    with Cons.prems have "d_calls d = calls @ replicate 0 (RecvFrom 1024) @ [Close]"
      and "d_result d = Inr None" by auto
    then show ?thesis by (intro exI [of _ 0]) simp
  next
    case late: False
    show ?thesis
    proof (cases inb)
      case Nil
      with late Cons.prems show ?thesis by simp
    next
      case c: (Cons r rest)
      show ?thesis
      proof (cases r)
        case (Inl e)
        with late c Cons.prems have "d_calls d = calls @ replicate 1 (RecvFrom 1024) @ [Close]"
          and "d_result d = Inr None" by auto
        then show ?thesis by (intro exI [of _ 1]) simp
      next
        case (Inr p)
        obtain data addr where p: "p = (data, addr)" by (cases p)
        show ?thesis
        proof (cases "utf8_decode data")
          case bad: (Inl e)
          with late c Inr p Cons.prems
          have "d_calls d = calls @ replicate 1 (RecvFrom 1024) @ [Close]"
            and "d_result d = Inr None" by auto
          then show ?thesis by (intro exI [of _ 1]) simp
        next
          case ok: (Inr s)
          show ?thesis
          proof (cases "s = str_lit ''Headset-Discovery-Response''")
            case True
            with late c Inr p ok Cons.prems
            have "d_calls d = calls @ replicate 1 (RecvFrom 1024) @ [Close]"
              and "d_result d = Inr (Some (fst addr))" by auto
            then show ?thesis by (intro exI [of _ 1]) simp
          next
            case False
            with late c Inr p ok Cons.prems
            have "listen timeout start_time clk rest (calls @ [RecvFrom 1024]) out = Some d"
              by simp
            from Cons.IH [OF this] obtain n where
              n: "d_calls d = (calls @ [RecvFrom 1024]) @ replicate n (RecvFrom 1024) @ [Close]"
              and r: "\<forall>e. d_result d \<noteq> Inl e" by blast
            have "d_calls d = calls @ replicate (Suc n) (RecvFrom 1024) @ [Close]"
              using n by simp
            with r show ?thesis by (intro exI [of _ "Suc n"]) simp
          qed
        qed
      qed
    qed
  qed
qed

text \<open>The four shapes of the calls of one discovery.\<close>

lemma discover_shape:
  assumes "discover_headset w discovery_port code = Some d"
  shows "(d_calls d = [Socket_DGRAM, SetTimeout 5, Bind 5002] \<and> (\<exists>e. d_result d = Inl e))
       \<or> (d_calls d = [Socket_DGRAM, SetTimeout 5, Bind 5002, SetBroadcast, Close]
            \<and> d_result d = Inr None)
       \<or> (\<exists>msg. d_calls d = [Socket_DGRAM, SetTimeout 5, Bind 5002, SetBroadcast,
                             SendTo msg discovery_port, Close]
            \<and> d_result d = Inr None)
       \<or> (\<exists>msg n. d_calls d = [Socket_DGRAM, SetTimeout 5, Bind 5002, SetBroadcast,
                               SendTo msg discovery_port] @ replicate n (RecvFrom 1024) @ [Close]
            \<and> (\<forall>a. d_result d = Inr (Some a) \<longrightarrow> 0 < n)
            \<and> (\<forall>e. d_result d \<noteq> Inl e))"
proof (cases "udp_bind w")
  case (Some e)
  with assms show ?thesis by (auto simp add: discover_headset_def)
next
  case bound: None
  show ?thesis
  proof (cases "utf8_encode code")
    case (Inl e)
    with bound assms show ?thesis by (auto simp add: discover_headset_def)
  next
    case enc: (Inr msg)
    show ?thesis
    proof (cases "udp_sendto w")
      case (Some e)
      with bound enc assms show ?thesis by (auto simp add: discover_headset_def)
    next
      case sent: None
      show ?thesis
      proof (cases "clock w")
        case Nil
        with bound enc sent assms show ?thesis by (simp add: discover_headset_def)
      next
        case (Cons start_time clk)
        from assms have "listen 5 start_time clk (inbound w)
               [Socket_DGRAM, SetTimeout 5, Bind 5002, SetBroadcast, SendTo msg discovery_port]
               [Broadcasting code discovery_port] = Some d"
          unfolding discover_started [OF bound sent enc Cons] .
        from listen_shape [OF this] show ?thesis by blast
      qed
    qed
  qed
qed

lemma discover_calls:
  assumes "discover_headset w 5001 code = Some d"
  shows "(\<forall>c\<in>set (d_calls d). uses_discovery_constants c \<and> \<not> tcp_call c)
       \<and> take 3 (d_calls d) = [Socket_DGRAM, SetTimeout 5, Bind 5002]"
  using discover_shape [OF assms] by auto

lemma discover_found_calls:
  assumes "discover_headset w discovery_port code = Some d" "d_result d = Inr (Some a)"
  shows "(\<exists>msg. SendTo msg discovery_port \<in> set (d_calls d)) \<and> RecvFrom 1024 \<in> set (d_calls d)"
proof -
  from discover_shape [OF assms(1)] assms(2) obtain msg n where
    n: "d_calls d = [Socket_DGRAM, SetTimeout 5, Bind 5002, SetBroadcast,
                               SendTo msg discovery_port] @ replicate n (RecvFrom 1024) @ [Close]"
    and p: "0 < n" by auto
  from p obtain k where "n = Suc k" by (cases n) simp_all
  with n show ?thesis by auto
qed


subsection \<open>The transfer\<close>

lemma send_data_shape:
  "t_reports (send_data w file_data file_name headset_ip port) = []
   \<and> (\<forall>c\<in>set (t_calls (send_data w file_data file_name headset_ip port)).
         tcp_call c \<or> c = SetTimeout 30 \<or> c = Close)
   \<and> (t_calls (send_data w file_data file_name headset_ip port) = []
       \<or> take 3 (t_calls (send_data w file_data file_name headset_ip port))
            = [Socket_STREAM, SetTimeout 30, Connect headset_ip port])"
  by (simp add: send_data_def handler_def Let_def split: sum.splits option.splits)

lemma send_data_constants:
  "\<forall>c\<in>set (t_calls (send_data w file_data file_name headset_ip 5000)).
     uses_transfer_constants c"
  by (simp add: send_data_def handler_def Let_def split: sum.splits option.splits)

lemma send_data_refused:
  "send_data world_refused [1, 2, 3, 4, 5, 6, 7, 8, 9, 10] (str_lit ''Chair.glb'')
       ''192.168.1.42'' 5000
     = \<lparr>t_raised = None,
        t_calls = [Socket_STREAM, SetTimeout 30, Connect ''192.168.1.42'' 5000],
        t_console = [Connecting ''192.168.1.42'' 5000, FailedToTransferExc OSError],
        t_reports = []\<rparr>"
  unfolding send_data_def packet_Chair_glb
  by (simp add: world_refused_def world_ok_def handler_def)

subsection \<open>\<open>execute\<close>\<close>

lemma export_props:
  "e_calls (export_and_start l ctx w headset_ip port calls out) = calls
   \<and> (e_result (export_and_start l ctx w headset_ip port calls out) = Inr CANCELLED
        \<and> e_thread (export_and_start l ctx w headset_ip port calls out) = None
        \<and> (\<exists>m. (\<forall>a. m \<noteq> TransferStarted a)
               \<and> e_reports (export_and_start l ctx w headset_ip port calls out) = [(ERROR, m)])
      \<or> e_result (export_and_start l ctx w headset_ip port calls out) = Inr FINISHED
        \<and> e_reports (export_and_start l ctx w headset_ip port calls out)
            = [(INFO, TransferStarted headset_ip)]
        \<and> (\<exists>file_data file_name.
              e_thread (export_and_start l ctx w headset_ip port calls out)
                = Some (file_data, file_name, headset_ip, port)))"
  by (simp add: export_and_start_def cancelled_def Let_def split: option.splits sum.splits)

lemma export_invalid_selection:
  assumes "selected_objects ctx = [] \<or> (\<forall>a. active ctx = Some a \<longrightarrow> a \<notin> set (selected_objects ctx))"
  shows "export_and_start l ctx w headset_ip port calls out
           = cancelled (if selected_objects ctx = [] then NoObjectsSelected
                        else ActiveNotAmongSelected) calls out"
  using assms by (auto simp add: export_and_start_def split: option.splits)

lemma execute_short_code:
  "length (py_upper l (py_strip l (headset_connection_code ctx))) \<noteq> 4 \<Longrightarrow>
     execute l ctx w = Some (cancelled CodeMustBe4Characters [] [])"
  by (simp add: execute_def Let_def)

lemma execute_discovered:
  assumes "length (py_upper l (py_strip l (headset_connection_code ctx))) = 4"
    "discover_headset w 5001 (py_upper l (py_strip l (headset_connection_code ctx))) = Some d"
    "d_result d = Inr (Some headset_ip)" "headset_ip \<noteq> []"
  shows "execute l ctx w
           = Some (export_and_start l ctx w headset_ip 5000 (d_calls d) (d_console d))"
  using assms by (simp add: execute_def Let_def)

lemma execute_not_discovered:
  assumes "length (py_upper l (py_strip l (headset_connection_code ctx))) = 4"
    "discover_headset w 5001 (py_upper l (py_strip l (headset_connection_code ctx))) = Some d"
    "d_result d = Inr None \<or> d_result d = Inr (Some [])"
  shows "execute l ctx w = Some (cancelled CouldNotDiscoverHeadset (d_calls d) (d_console d))"
  using assms by (auto simp add: execute_def Let_def)

lemma execute_raised:
  assumes "length (py_upper l (py_strip l (headset_connection_code ctx))) = 4"
    "discover_headset w 5001 (py_upper l (py_strip l (headset_connection_code ctx))) = Some d"
    "d_result d = Inl e"
  shows "execute l ctx w
           = Some \<lparr>e_result = Inl e, e_reports = [], e_calls = d_calls d,
                   e_console = d_console d, e_thread = None\<rparr>"
  using assms by (simp add: execute_def Let_def)

lemma execute_cases:
  assumes "execute l ctx w = Some ex"
  shows "ex = cancelled CodeMustBe4Characters [] []
       \<or> (\<exists>d. discover_headset w 5001 (py_upper l (py_strip l (headset_connection_code ctx)))
                 = Some d
              \<and> ((\<exists>e. ex = \<lparr>e_result = Inl e, e_reports = [], e_calls = d_calls d,
                             e_console = d_console d, e_thread = None\<rparr>)
                 \<or> ex = cancelled CouldNotDiscoverHeadset (d_calls d) (d_console d)
                 \<or> (\<exists>headset_ip. headset_ip \<noteq> [] \<and> d_result d = Inr (Some headset_ip)
                       \<and> ex = export_and_start l ctx w headset_ip 5000
                                (d_calls d) (d_console d))))"
proof (cases "length (py_upper l (py_strip l (headset_connection_code ctx))) = 4")
  case False
  with assms execute_short_code [of l ctx w] show ?thesis by simp
next
  case len: True
  let ?code = "py_upper l (py_strip l (headset_connection_code ctx))"
  show ?thesis
  proof (cases "discover_headset w 5001 ?code")
    case None
    with len assms show ?thesis by (simp add: execute_def Let_def)
  next
    case (Some d)
    show ?thesis
    proof (cases "d_result d")
      case (Inl e)
      from execute_raised [OF len Some Inl] assms Some show ?thesis by auto
    next
      case (Inr r)
      show ?thesis
      proof (cases "r = None \<or> r = Some []")
        case True
        with Inr have "d_result d = Inr None \<or> d_result d = Inr (Some [])" by auto
        from execute_not_discovered [OF len Some this] assms Some show ?thesis by auto
      next
        case False
        then obtain headset_ip where ip: "r = Some headset_ip" "headset_ip \<noteq> []" by auto
        with Inr have "d_result d = Inr (Some headset_ip)" by simp
        from execute_discovered [OF len Some this ip(2)] assms Some ip this
        show ?thesis by auto
      qed
    qed
  qed
qed


lemma execute_props:
  assumes "execute l ctx w = Some ex"
  shows "(\<forall>c\<in>set (e_calls ex). uses_discovery_constants c \<and> \<not> tcp_call c)
       \<and> (e_calls ex = [] \<or> take 3 (e_calls ex) = [Socket_DGRAM, SetTimeout 5, Bind 5002])
       \<and> ((\<exists>e. e_result ex = Inl e \<and> e_reports ex = [] \<and> e_thread ex = None)
          \<or> (e_result ex = Inr CANCELLED \<and> e_thread ex = None
              \<and> (\<exists>m. (\<forall>a. m \<noteq> TransferStarted a) \<and> e_reports ex = [(ERROR, m)]))
          \<or> (e_result ex = Inr FINISHED
              \<and> (\<exists>msg. SendTo msg 5001 \<in> set (e_calls ex))
              \<and> RecvFrom 1024 \<in> set (e_calls ex)
              \<and> (\<exists>file_data file_name headset_ip. headset_ip \<noteq> []
                    \<and> e_thread ex = Some (file_data, file_name, headset_ip, 5000)
                    \<and> e_reports ex = [(INFO, TransferStarted headset_ip)])))"
proof -
  let ?code = "py_upper l (py_strip l (headset_connection_code ctx))"
  from execute_cases [OF assms] consider
      (short) "ex = cancelled CodeMustBe4Characters [] []"
    | (raised) d e where "discover_headset w 5001 ?code = Some d"
        "ex = \<lparr>e_result = Inl e, e_reports = [], e_calls = d_calls d,
               e_console = d_console d, e_thread = None\<rparr>"
    | (nobody) d where "discover_headset w 5001 ?code = Some d"
        "ex = cancelled CouldNotDiscoverHeadset (d_calls d) (d_console d)"
    | (found) d headset_ip where "discover_headset w 5001 ?code = Some d"
        "headset_ip \<noteq> []" "d_result d = Inr (Some headset_ip)"
        "ex = export_and_start l ctx w headset_ip 5000 (d_calls d) (d_console d)"
    by blast
  then show ?thesis
  proof cases
    case short
    then show ?thesis by (simp add: cancelled_def)
  next
    case raised
    from discover_calls [OF raised(1)] raised(2) show ?thesis by simp
  next
    case nobody
    from discover_calls [OF nobody(1)] nobody(2) show ?thesis by (simp add: cancelled_def)
  next
    case found
    note p = export_props [of l ctx w headset_ip 5000 "d_calls d" "d_console d",
        folded found(4)]
    from p have c: "e_calls ex = d_calls d" by simp
    from discover_calls [OF found(1)] c
    have 1: "\<forall>c\<in>set (e_calls ex). uses_discovery_constants c \<and> \<not> tcp_call c"
      and 2: "e_calls ex = [] \<or> take 3 (e_calls ex) = [Socket_DGRAM, SetTimeout 5, Bind 5002]"
      by simp_all
    from discover_found_calls [OF found(1) found(3)] c
    have 3: "\<exists>msg. SendTo msg 5001 \<in> set (e_calls ex)" and 4: "RecvFrom 1024 \<in> set (e_calls ex)"
      by simp_all
    from p found(2) 3 4
    have "(e_result ex = Inr CANCELLED \<and> e_thread ex = None
              \<and> (\<exists>m. (\<forall>a. m \<noteq> TransferStarted a) \<and> e_reports ex = [(ERROR, m)]))
          \<or> (e_result ex = Inr FINISHED
              \<and> (\<exists>msg. SendTo msg 5001 \<in> set (e_calls ex))
              \<and> RecvFrom 1024 \<in> set (e_calls ex)
              \<and> (\<exists>file_data file_name headset_ip. headset_ip \<noteq> []
                    \<and> e_thread ex = Some (file_data, file_name, headset_ip, 5000)
                    \<and> e_reports ex = [(INFO, TransferStarted headset_ip)]))"
      by blast
    with 1 2 show ?thesis by blast
  qed
qed

lemma worker_shape:
  "t_reports (worker w args) = []
   \<and> (\<forall>c\<in>set (t_calls (worker w args)). tcp_call c \<or> c = SetTimeout 30 \<or> c = Close)
   \<and> (t_calls (worker w args) = []
       \<or> take 3 (t_calls (worker w args))
            = [Socket_STREAM, SetTimeout 30, Connect (fst (snd (snd args))) (snd (snd (snd args)))])"
proof -
  obtain file_data file_name headset_ip port where
    a: "args = (file_data, file_name, headset_ip, port)" by (cases args) auto
  show ?thesis
    unfolding a worker_def using send_data_shape [of w file_data file_name headset_ip port]
    by simp
qed

lemma worker_constants:
  "snd (snd (snd args)) = 5000 \<Longrightarrow>
     \<forall>c\<in>set (t_calls (worker w args)). uses_transfer_constants c"
proof -
  assume p: "snd (snd (snd args)) = 5000"
  obtain file_data file_name headset_ip port where
    a: "args = (file_data, file_name, headset_ip, port)" by (cases args) auto
  with p have "port = 5000" by simp
  then show ?thesis
    unfolding a worker_def using send_data_constants [of w file_data file_name headset_ip]
    by simp
qed

lemma export_preferences:
  "export_and_start l (ctx\<lparr>addon_preferences := p\<rparr>) w headset_ip port calls out
     = export_and_start l ctx w headset_ip port calls out"
  by (simp add: export_and_start_def Let_def split: option.splits)

lemma preferences_unread:
  "execute l (ctx\<lparr>addon_preferences := p\<rparr>) w = execute l ctx w"
  by (simp add: execute_def export_preferences Let_def split: option.splits sum.splits)


subsection \<open>Example runs of \<open>execute\<close>\<close>

lemma normalise_ab12:
  "headset_connection_code ctx = str_lit ''ab12'' \<Longrightarrow>
     py_upper ascii_lib (py_strip ascii_lib (headset_connection_code ctx)) = str_lit ''AB12''"
  by (simp add: py_upper_def py_strip_def ascii_lib_def str_lit_def)

lemma discover_answered:
  assumes "udp_bind w = None" "udp_sendto w = None" "clock w = [0, 1]"
    "inbound w = [Inr (response_bytes, (''192.168.1.42'', 5001))]"
  shows "discover_headset w 5001 (str_lit ''AB12'')
     = Some \<lparr>d_result = Inr (Some ''192.168.1.42''),
             d_calls = [Socket_DGRAM, SetTimeout 5, Bind 5002, SetBroadcast,
                        SendTo [65, 66, 49, 50] 5001, RecvFrom 1024, Close],
             d_console = [Broadcasting (str_lit ''AB12'') 5001,
                          DiscoveredHeadset ''192.168.1.42'']\<rparr>"
  unfolding discover_started [OF assms(1) assms(2) encode_AB12 assms(3)] assms(4)
  by (simp add: decode_response_bytes)

lemma execute_answered:
  assumes "udp_bind w = None" "udp_sendto w = None" "clock w = [0, 1]"
    "inbound w = [Inr (response_bytes, (''192.168.1.42'', 5001))]"
    "headset_connection_code ctx = str_lit ''ab12''"
  shows "execute ascii_lib ctx w
     = Some (export_and_start ascii_lib ctx w ''192.168.1.42'' 5000
               [Socket_DGRAM, SetTimeout 5, Bind 5002, SetBroadcast,
                SendTo [65, 66, 49, 50] 5001, RecvFrom 1024, Close]
               [Broadcasting (str_lit ''AB12'') 5001, DiscoveredHeadset ''192.168.1.42''])"
  unfolding execute_def normalise_ab12 [OF assms(5)] Let_def
    discover_answered [OF assms(1) assms(2) assms(3) assms(4)]
  by (simp add: len_AB12)

lemma export_chair:
  assumes "temp_file w = Inr file_data"
  shows "export_and_start ascii_lib scene_chair w headset_ip port calls out
     = \<lparr>e_result = Inr FINISHED, e_reports = [(INFO, TransferStarted headset_ip)],
        e_calls = calls, e_console = out,
        e_thread = Some (file_data, str_lit ''Chair.glb'', headset_ip, port)\<rparr>"
proof -
  have s: "selected_objects scene_chair = [chair]" "active scene_chair = Some chair"
    "has_mesh chair"
    by (simp_all add: scene_chair_def chair_def)
  have g: "clean_name ascii_lib (obj_name chair) @ str_lit ''.glb'' = str_lit ''Chair.glb''"
    by (simp add: chair_def ascii_lib_def str_lit_def)
  show ?thesis by (simp add: export_and_start_def s g assms)
qed

lemma send_data_world_ok:
  "send_data world_ok [1, 2, 3, 4, 5, 6, 7, 8, 9, 10] (str_lit ''Chair.glb'')
       ''192.168.1.42'' 5000
     = \<lparr>t_raised = None,
        t_calls = [Socket_STREAM, SetTimeout 30, Connect ''192.168.1.42'' 5000,
                   SendAll [0, 0, 0, 9, 67, 104, 97, 105, 114, 46, 103, 108, 98,
                            0, 0, 0, 0, 0, 0, 0, 10, 1, 2, 3, 4, 5, 6, 7, 8, 9, 10],
                   Recv 1024, Close],
        t_console = [Connecting ''192.168.1.42'' 5000, ConnectionEstablished, DataSent,
                     ModelTransferred],
        t_reports = []\<rparr>"
proof -
  have d: "utf8_decode success_bytes = Inr (str_lit ''Success'')"
    using decode_Success_iff [of success_bytes] by (simp add: success_bytes_def)
  have w: "tcp_connect world_ok = None" "tcp_sendall world_ok = None"
    "tcp_recv world_ok = Inr success_bytes"
    by (simp_all add: world_ok_def)
  show ?thesis
    unfolding send_data_def packet_Chair_glb by (simp add: w d)
qed


section \<open>The operator\<close>

text \<open>
  Claim C2, as the code has it. Only the check of the connection code comes before the
  network: a code that does not normalise to exactly 4 characters is reported as an error
  and no socket call is made. The two checks of the selection come after discovery: when
  discovery has returned an address and nothing is selected, or the active object is
  missing or not among the selected objects, the error is reported and no thread is
  started and no TCP call made, but the broadcast has been sent and at least one receive
  made. When discovery returns no address, that is what is reported, and the selection is
  not looked at.
\<close>

theorem code_checked_before_discovery:
  "(\<forall>l ctx w.
      length (py_upper l (py_strip l (headset_connection_code ctx))) \<noteq> 4 \<longrightarrow>
        execute l ctx w
          = Some \<lparr>e_result = Inr CANCELLED, e_reports = [(ERROR, CodeMustBe4Characters)],
                  e_calls = [], e_console = [], e_thread = None\<rparr>)
   \<and> (\<forall>l ctx w d headset_ip.
        length (py_upper l (py_strip l (headset_connection_code ctx))) = 4
        \<and> discover_headset w 5001 (py_upper l (py_strip l (headset_connection_code ctx)))
            = Some d
        \<and> d_result d = Inr (Some headset_ip) \<and> headset_ip \<noteq> []
        \<and> (selected_objects ctx = []
            \<or> (\<forall>a. active ctx = Some a \<longrightarrow> a \<notin> set (selected_objects ctx)))
        \<longrightarrow>
          execute l ctx w
            = Some \<lparr>e_result = Inr CANCELLED,
                    e_reports = [(ERROR, if selected_objects ctx = [] then NoObjectsSelected
                                         else ActiveNotAmongSelected)],
                    e_calls = d_calls d, e_console = d_console d, e_thread = None\<rparr>
          \<and> (\<exists>msg. SendTo msg 5001 \<in> set (d_calls d))
          \<and> RecvFrom 1024 \<in> set (d_calls d)
          \<and> (\<forall>c\<in>set (d_calls d). \<not> tcp_call c))
   \<and> (\<forall>l ctx w d.
        length (py_upper l (py_strip l (headset_connection_code ctx))) = 4
        \<and> discover_headset w 5001 (py_upper l (py_strip l (headset_connection_code ctx)))
            = Some d
        \<and> d_result d = Inr None
        \<longrightarrow>
          execute l ctx w
            = Some \<lparr>e_result = Inr CANCELLED, e_reports = [(ERROR, CouldNotDiscoverHeadset)],
                    e_calls = d_calls d, e_console = d_console d, e_thread = None\<rparr>)"
proof (intro conjI allI impI)
  fix l :: lib and ctx :: bl_context and w :: world
  assume "length (py_upper l (py_strip l (headset_connection_code ctx))) \<noteq> 4"
  from execute_short_code [OF this, of w]
  show "execute l ctx w
          = Some \<lparr>e_result = Inr CANCELLED, e_reports = [(ERROR, CodeMustBe4Characters)],
                  e_calls = [], e_console = [], e_thread = None\<rparr>"
    by (simp add: cancelled_def)
next
  fix l :: lib and ctx :: bl_context and w :: world and d headset_ip
  let ?code = "py_upper l (py_strip l (headset_connection_code ctx))"
  assume h: "length ?code = 4 \<and> discover_headset w 5001 ?code = Some d
        \<and> d_result d = Inr (Some headset_ip) \<and> headset_ip \<noteq> []
        \<and> (selected_objects ctx = []
            \<or> (\<forall>a. active ctx = Some a \<longrightarrow> a \<notin> set (selected_objects ctx)))"
  then have len: "length ?code = 4" and disc: "discover_headset w 5001 ?code = Some d"
    and res: "d_result d = Inr (Some headset_ip)" and ip: "headset_ip \<noteq> []"
    and sel: "selected_objects ctx = []
            \<or> (\<forall>a. active ctx = Some a \<longrightarrow> a \<notin> set (selected_objects ctx))"
    by blast+
  show "execute l ctx w
            = Some \<lparr>e_result = Inr CANCELLED,
                    e_reports = [(ERROR, if selected_objects ctx = [] then NoObjectsSelected
                                         else ActiveNotAmongSelected)],
                    e_calls = d_calls d, e_console = d_console d, e_thread = None\<rparr>"
    unfolding execute_discovered [OF len disc res ip] export_invalid_selection [OF sel]
    by (simp add: cancelled_def)
  from discover_found_calls [OF disc res]
  show "\<exists>msg. SendTo msg 5001 \<in> set (d_calls d)" and "RecvFrom 1024 \<in> set (d_calls d)"
    by blast+
  from discover_calls [OF disc] show "\<forall>c\<in>set (d_calls d). \<not> tcp_call c" by blast
next
  fix l :: lib and ctx :: bl_context and w :: world and d
  let ?code = "py_upper l (py_strip l (headset_connection_code ctx))"
  assume h: "length ?code = 4 \<and> discover_headset w 5001 ?code = Some d
        \<and> d_result d = Inr None"
  then have len: "length ?code = 4" and disc: "discover_headset w 5001 ?code = Some d"
    and res: "d_result d = Inr None \<or> d_result d = Inr (Some [])"
    by blast+
  show "execute l ctx w
            = Some \<lparr>e_result = Inr CANCELLED, e_reports = [(ERROR, CouldNotDiscoverHeadset)],
                    e_calls = d_calls d, e_console = d_console d, e_thread = None\<rparr>"
    unfolding execute_not_discovered [OF len disc res] by (simp add: cancelled_def)
qed

theorem code_checked_before_discovery_witness:
  "execute ascii_lib (scene_chair\<lparr>headset_connection_code := str_lit ''ab1''\<rparr>) world_ok
     = Some \<lparr>e_result = Inr CANCELLED, e_reports = [(ERROR, CodeMustBe4Characters)],
             e_calls = [], e_console = [], e_thread = None\<rparr>
   \<and> execute ascii_lib (scene_chair\<lparr>active := None\<rparr>) world_ok
     = Some \<lparr>e_result = Inr CANCELLED, e_reports = [(ERROR, ActiveNotAmongSelected)],
             e_calls = [Socket_DGRAM, SetTimeout 5, Bind 5002, SetBroadcast,
                        SendTo [65, 66, 49, 50] 5001, RecvFrom 1024, Close],
             e_console = [Broadcasting (str_lit ''AB12'') 5001,
                          DiscoveredHeadset ''192.168.1.42''],
             e_thread = None\<rparr>"
proof -
  let ?short = "scene_chair\<lparr>headset_connection_code := str_lit ''ab1''\<rparr>"
  let ?none = "scene_chair\<lparr>active := None\<rparr>"
  let ?d = "\<lparr>d_result = Inr (Some ''192.168.1.42''),
             d_calls = [Socket_DGRAM, SetTimeout 5, Bind 5002, SetBroadcast,
                        SendTo [65, 66, 49, 50] 5001, RecvFrom 1024, Close],
             d_console = [Broadcasting (str_lit ''AB12'') 5001,
                          DiscoveredHeadset ''192.168.1.42'']\<rparr>"
  have s: "length (py_upper ascii_lib (py_strip ascii_lib (headset_connection_code ?short)))
             \<noteq> 4"
    by (simp add: py_upper_def py_strip_def ascii_lib_def str_lit_def)
  have c: "py_upper ascii_lib (py_strip ascii_lib (headset_connection_code ?none))
             = str_lit ''AB12''"
    by (rule normalise_ab12) (simp add: scene_chair_def)
  have w: "udp_bind world_ok = None" "udp_sendto world_ok = None" "clock world_ok = [0, 1]"
    "inbound world_ok = [Inr (response_bytes, (''192.168.1.42'', 5001))]"
    by (simp_all add: world_ok_def)
  have h: "length (py_upper ascii_lib (py_strip ascii_lib (headset_connection_code ?none))) = 4
        \<and> discover_headset world_ok 5001
              (py_upper ascii_lib (py_strip ascii_lib (headset_connection_code ?none)))
            = Some ?d
        \<and> d_result ?d = Inr (Some ''192.168.1.42'') \<and> ''192.168.1.42'' \<noteq> []
        \<and> (selected_objects ?none = []
            \<or> (\<forall>a. active ?none = Some a \<longrightarrow> a \<notin> set (selected_objects ?none)))"
    unfolding c using discover_answered [OF w] by (simp add: len_AB12)
  have n: "selected_objects ?none \<noteq> []" by (simp add: scene_chair_def)
  from code_checked_before_discovery [THEN conjunct1, rule_format, OF s, of world_ok]
    code_checked_before_discovery [THEN conjunct2, THEN conjunct1, rule_format, OF h,
      THEN conjunct1]
    n
  show ?thesis by simp
qed

text \<open>
  The run that the claim as worded excludes: the code is valid, a headset answers, and
  nothing is selected. The error is reported after the broadcast and the receive, not with
  no socket call made.
\<close>

theorem nothing_selected_found_after_discovery:
  "execute ascii_lib (scene_chair\<lparr>selected_objects := []\<rparr>) world_ok
     = Some \<lparr>e_result = Inr CANCELLED, e_reports = [(ERROR, NoObjectsSelected)],
             e_calls = [Socket_DGRAM, SetTimeout 5, Bind 5002, SetBroadcast,
                        SendTo [65, 66, 49, 50] 5001, RecvFrom 1024, Close],
             e_console = [Broadcasting (str_lit ''AB12'') 5001,
                          DiscoveredHeadset ''192.168.1.42''],
             e_thread = None\<rparr>
   \<and> execute ascii_lib (scene_chair\<lparr>selected_objects := []\<rparr>) world_ok
     \<noteq> Some \<lparr>e_result = Inr CANCELLED, e_reports = [(ERROR, NoObjectsSelected)],
             e_calls = [], e_console = [], e_thread = None\<rparr>"
proof -
  let ?ctx = "scene_chair\<lparr>selected_objects := []\<rparr>"
  have w: "udp_bind world_ok = None" "udp_sendto world_ok = None" "clock world_ok = [0, 1]"
    "inbound world_ok = [Inr (response_bytes, (''192.168.1.42'', 5001))]"
    by (simp_all add: world_ok_def)
  have c: "headset_connection_code ?ctx = str_lit ''ab12''" by (simp add: scene_chair_def)
  have s: "selected_objects ?ctx = []
            \<or> (\<forall>a. active ?ctx = Some a \<longrightarrow> a \<notin> set (selected_objects ?ctx))"
    by simp
  show ?thesis
    unfolding execute_answered [OF w c] export_invalid_selection [OF s]
    by (simp add: cancelled_def)
qed


text \<open>
  Claim C7, as the code has it. \<open>execute\<close> itself, on the thread that called it, makes
  the socket calls of discovery and none of the transfer. A run that ends with \<open>FINISHED\<close>
  has sent the broadcast and made at least one receive before it starts the one thread of
  this invocation, on \<open>send_data\<close> with port 5000, and reports that the transfer has
  started; a run that ends otherwise starts no thread. The thread makes the calls of the
  TCP transfer only.
\<close>

theorem transfer_alone_on_worker:
  "\<forall>l ctx w ex.
     execute l ctx w = Some ex \<longrightarrow>
       (\<forall>c\<in>set (e_calls ex). \<not> tcp_call c)
     \<and> (e_result ex = Inr FINISHED \<longrightarrow>
          (\<exists>msg. SendTo msg 5001 \<in> set (e_calls ex))
          \<and> RecvFrom 1024 \<in> set (e_calls ex)
          \<and> (\<exists>file_data file_name headset_ip.
                e_thread ex = Some (file_data, file_name, headset_ip, 5000)
                \<and> e_reports ex = [(INFO, TransferStarted headset_ip)]
                \<and> worker w (file_data, file_name, headset_ip, 5000)
                    = send_data w file_data file_name headset_ip 5000))
     \<and> (e_result ex \<noteq> Inr FINISHED \<longrightarrow> e_thread ex = None)
     \<and> (\<forall>args. \<forall>c\<in>set (t_calls (worker w args)).
           tcp_call c \<or> c = SetTimeout 30 \<or> c = Close)"
proof (intro allI impI)
  fix l :: lib and ctx :: bl_context and w :: world and ex
  assume e: "execute l ctx w = Some ex"
  note p = execute_props [OF e]
  have 1: "\<forall>c\<in>set (e_calls ex). \<not> tcp_call c" using p by blast
  have 2: "e_result ex = Inr FINISHED \<longrightarrow>
          (\<exists>msg. SendTo msg 5001 \<in> set (e_calls ex))
          \<and> RecvFrom 1024 \<in> set (e_calls ex)
          \<and> (\<exists>file_data file_name headset_ip.
                e_thread ex = Some (file_data, file_name, headset_ip, 5000)
                \<and> e_reports ex = [(INFO, TransferStarted headset_ip)]
                \<and> worker w (file_data, file_name, headset_ip, 5000)
                    = send_data w file_data file_name headset_ip 5000)"
    using p by (auto simp add: worker_def)
  have 3: "e_result ex \<noteq> Inr FINISHED \<longrightarrow> e_thread ex = None" using p by auto
  have 4: "\<forall>args. \<forall>c\<in>set (t_calls (worker w args)).
           tcp_call c \<or> c = SetTimeout 30 \<or> c = Close"
    using worker_shape [of w] by blast
  from 1 2 3 4
  show "(\<forall>c\<in>set (e_calls ex). \<not> tcp_call c)
     \<and> (e_result ex = Inr FINISHED \<longrightarrow>
          (\<exists>msg. SendTo msg 5001 \<in> set (e_calls ex))
          \<and> RecvFrom 1024 \<in> set (e_calls ex)
          \<and> (\<exists>file_data file_name headset_ip.
                e_thread ex = Some (file_data, file_name, headset_ip, 5000)
                \<and> e_reports ex = [(INFO, TransferStarted headset_ip)]
                \<and> worker w (file_data, file_name, headset_ip, 5000)
                    = send_data w file_data file_name headset_ip 5000))
     \<and> (e_result ex \<noteq> Inr FINISHED \<longrightarrow> e_thread ex = None)
     \<and> (\<forall>args. \<forall>c\<in>set (t_calls (worker w args)).
           tcp_call c \<or> c = SetTimeout 30 \<or> c = Close)"
    by blast
qed

theorem transfer_alone_on_worker_witness:
  "\<exists>ex. execute ascii_lib scene_chair world_ok = Some ex \<and> e_result ex = Inr FINISHED
     \<and> (\<exists>msg. SendTo msg 5001 \<in> set (e_calls ex))
     \<and> RecvFrom 1024 \<in> set (e_calls ex)
     \<and> (\<exists>file_data file_name headset_ip.
           e_thread ex = Some (file_data, file_name, headset_ip, 5000)
           \<and> e_reports ex = [(INFO, TransferStarted headset_ip)])"
proof -
  let ?ex = "\<lparr>e_result = Inr FINISHED,
             e_reports = [(INFO, TransferStarted ''192.168.1.42'')],
             e_calls = [Socket_DGRAM, SetTimeout 5, Bind 5002, SetBroadcast,
                        SendTo [65, 66, 49, 50] 5001, RecvFrom 1024, Close],
             e_console = [Broadcasting (str_lit ''AB12'') 5001,
                          DiscoveredHeadset ''192.168.1.42''],
             e_thread = Some ([1, 2, 3, 4, 5, 6, 7, 8, 9, 10], str_lit ''Chair.glb'',
                              ''192.168.1.42'', 5000)\<rparr>"
  have e: "execute ascii_lib scene_chair world_ok = Some ?ex" by (rule execute_chair_ok)
  have f: "e_result ?ex = Inr FINISHED" by simp
  from transfer_alone_on_worker [rule_format, OF e, THEN conjunct2, THEN conjunct1,
      rule_format, OF f] e f
  show ?thesis by blast
qed

text \<open>
  The run in which a headset at 192.168.1.42 answers: the broadcast and the blocking receive are calls of
  \<open>execute\<close> itself, made before the thread exists; the thread makes the TCP calls only.
\<close>

theorem discovery_runs_in_execute:
  "execute ascii_lib scene_chair world_ok
     = Some \<lparr>e_result = Inr FINISHED,
             e_reports = [(INFO, TransferStarted ''192.168.1.42'')],
             e_calls = [Socket_DGRAM, SetTimeout 5, Bind 5002, SetBroadcast,
                        SendTo [65, 66, 49, 50] 5001, RecvFrom 1024, Close],
             e_console = [Broadcasting (str_lit ''AB12'') 5001,
                          DiscoveredHeadset ''192.168.1.42''],
             e_thread = Some ([1, 2, 3, 4, 5, 6, 7, 8, 9, 10], str_lit ''Chair.glb'',
                              ''192.168.1.42'', 5000)\<rparr>
   \<and> t_calls (worker world_ok ([1, 2, 3, 4, 5, 6, 7, 8, 9, 10], str_lit ''Chair.glb'',
                                ''192.168.1.42'', 5000))
     = [Socket_STREAM, SetTimeout 30, Connect ''192.168.1.42'' 5000,
        SendAll [0, 0, 0, 9, 67, 104, 97, 105, 114, 46, 103, 108, 98,
                 0, 0, 0, 0, 0, 0, 0, 10, 1, 2, 3, 4, 5, 6, 7, 8, 9, 10],
        Recv 1024, Close]"
  unfolding worker_chair send_data_world_ok using execute_chair_ok by simp

text \<open>
  Claim C9, as the code has it. A call of \<open>execute\<close> that returns makes exactly one
  report to the host: an error, with \<open>CANCELLED\<close> and no thread started, or that the
  transfer has started, with \<open>FINISHED\<close> and the thread started. The thread reports nothing
  to the host: whether the transfer succeeded, failed or timed out is printed only.
\<close>

theorem one_report_by_execute:
  "(\<forall>l ctx w ex r.
      execute l ctx w = Some ex \<and> e_result ex = Inr r \<longrightarrow>
        (r = CANCELLED \<and> e_thread ex = None
           \<and> (\<exists>m. (\<forall>a. m \<noteq> TransferStarted a) \<and> e_reports ex = [(ERROR, m)]))
        \<or> (r = FINISHED
           \<and> (\<exists>file_data file_name headset_ip.
                 e_thread ex = Some (file_data, file_name, headset_ip, 5000)
                 \<and> e_reports ex = [(INFO, TransferStarted headset_ip)])))
   \<and> (\<forall>w args. t_reports (worker w args) = [])"
proof (intro conjI allI impI)
  fix l :: lib and ctx :: bl_context and w :: world and ex r
  assume "execute l ctx w = Some ex \<and> e_result ex = Inr r"
  then have e: "execute l ctx w = Some ex" and r: "e_result ex = Inr r" by simp_all
  from execute_props [OF e] r
  show "(r = CANCELLED \<and> e_thread ex = None
           \<and> (\<exists>m. (\<forall>a. m \<noteq> TransferStarted a) \<and> e_reports ex = [(ERROR, m)]))
        \<or> (r = FINISHED
           \<and> (\<exists>file_data file_name headset_ip.
                 e_thread ex = Some (file_data, file_name, headset_ip, 5000)
                 \<and> e_reports ex = [(INFO, TransferStarted headset_ip)]))"
    by auto
next
  fix w :: world and args
  from worker_shape [of w args] show "t_reports (worker w args) = []" by simp
qed

theorem one_report_by_execute_witness:
  "execute ascii_lib scene_chair world_silent
     = Some \<lparr>e_result = Inr CANCELLED, e_reports = [(ERROR, CouldNotDiscoverHeadset)],
             e_calls = [Socket_DGRAM, SetTimeout 5, Bind 5002, SetBroadcast,
                        SendTo [65, 66, 49, 50] 5001, RecvFrom 1024, Close],
             e_console = [Broadcasting (str_lit ''AB12'') 5001, SocketTimedOut],
             e_thread = None\<rparr>
   \<and> (\<exists>m. (\<forall>a. m \<noteq> TransferStarted a)
          \<and> e_reports (the (execute ascii_lib scene_chair world_silent)) = [(ERROR, m)])"
proof -
  let ?ex = "\<lparr>e_result = Inr CANCELLED, e_reports = [(ERROR, CouldNotDiscoverHeadset)],
             e_calls = [Socket_DGRAM, SetTimeout 5, Bind 5002, SetBroadcast,
                        SendTo [65, 66, 49, 50] 5001, RecvFrom 1024, Close],
             e_console = [Broadcasting (str_lit ''AB12'') 5001, SocketTimedOut],
             e_thread = None\<rparr>"
  have w: "udp_bind world_silent = None" "udp_sendto world_silent = None"
    "clock world_silent = 0 # [1]" "inbound world_silent = [Inl SocketTimeout]"
    by (simp_all add: world_silent_def world_ok_def)
  have d: "discover_headset world_silent 5001 (str_lit ''AB12'')
     = Some \<lparr>d_result = Inr None,
             d_calls = [Socket_DGRAM, SetTimeout 5, Bind 5002, SetBroadcast,
                        SendTo [65, 66, 49, 50] 5001, RecvFrom 1024, Close],
             d_console = [Broadcasting (str_lit ''AB12'') 5001, SocketTimedOut]\<rparr>"
    unfolding discover_started [OF w(1) w(2) encode_AB12 w(3)] w(4) by simp
  have e: "execute ascii_lib scene_chair world_silent = Some ?ex"
    unfolding execute_def code_ab12 Let_def d by (simp add: len_AB12 cancelled_def)
  have h: "execute ascii_lib scene_chair world_silent = Some ?ex \<and> e_result ?ex = Inr CANCELLED"
    using e by simp
  from one_report_by_execute [THEN conjunct1, rule_format, OF h] e
  show ?thesis by simp
qed

text \<open>
  The run that the claim as worded excludes: the headset refuses the connection. The host
  has been told that the transfer started, and is told nothing more; the failure is a line
  on the console.
\<close>

theorem transfer_failure_only_printed:
  "execute ascii_lib scene_chair world_refused
     = Some \<lparr>e_result = Inr FINISHED,
             e_reports = [(INFO, TransferStarted ''192.168.1.42'')],
             e_calls = [Socket_DGRAM, SetTimeout 5, Bind 5002, SetBroadcast,
                        SendTo [65, 66, 49, 50] 5001, RecvFrom 1024, Close],
             e_console = [Broadcasting (str_lit ''AB12'') 5001,
                          DiscoveredHeadset ''192.168.1.42''],
             e_thread = Some ([1, 2, 3, 4, 5, 6, 7, 8, 9, 10], str_lit ''Chair.glb'',
                              ''192.168.1.42'', 5000)\<rparr>
   \<and> worker world_refused ([1, 2, 3, 4, 5, 6, 7, 8, 9, 10], str_lit ''Chair.glb'',
                            ''192.168.1.42'', 5000)
     = \<lparr>t_raised = None,
        t_calls = [Socket_STREAM, SetTimeout 30, Connect ''192.168.1.42'' 5000],
        t_console = [Connecting ''192.168.1.42'' 5000, FailedToTransferExc OSError],
        t_reports = []\<rparr>"
proof -
  have w: "udp_bind world_refused = None" "udp_sendto world_refused = None"
    "clock world_refused = [0, 1]"
    "inbound world_refused = [Inr (response_bytes, (''192.168.1.42'', 5001))]"
    "temp_file world_refused = Inr [1, 2, 3, 4, 5, 6, 7, 8, 9, 10]"
    by (simp_all add: world_refused_def world_ok_def)
  have c: "headset_connection_code scene_chair = str_lit ''ab12''"
    by (simp add: scene_chair_def)
  show ?thesis
    unfolding execute_answered [OF w(1) w(2) w(3) w(4) c] export_chair [OF w(5)]
      worker_chair send_data_refused
    by simp
qed

text \<open>
  Claim C10. \<open>execute\<close> does the same whatever the add-on preferences hold. The socket
  calls it makes set the timeout 5, bind port 5002 and send to port 5001; the thread it
  starts is given port 5000, and the calls of that thread set the timeout 30 and connect
  to port 5000.
\<close>

theorem preferences_never_read:
  "\<forall>l ctx w p.
     execute l (ctx\<lparr>addon_preferences := p\<rparr>) w = execute l ctx w
     \<and> (\<forall>ex. execute l ctx w = Some ex \<longrightarrow>
          (\<forall>c\<in>set (e_calls ex). uses_discovery_constants c)
          \<and> (e_calls ex = [] \<or> take 3 (e_calls ex) = [Socket_DGRAM, SetTimeout 5, Bind 5002])
          \<and> (\<forall>args. e_thread ex = Some args \<longrightarrow>
                snd (snd (snd args)) = 5000
                \<and> (\<forall>c\<in>set (t_calls (worker w args)). uses_transfer_constants c)
                \<and> (t_calls (worker w args) = []
                    \<or> take 3 (t_calls (worker w args))
                        = [Socket_STREAM, SetTimeout 30,
                           Connect (fst (snd (snd args))) 5000])))"
proof (intro allI conjI impI)
  fix l :: lib and ctx :: bl_context and w :: world and p
  show "execute l (ctx\<lparr>addon_preferences := p\<rparr>) w = execute l ctx w"
    by (rule preferences_unread)
next
  fix l :: lib and ctx :: bl_context and w :: world and ex
  assume e: "execute l ctx w = Some ex"
  from execute_props [OF e]
  show "\<forall>c\<in>set (e_calls ex). uses_discovery_constants c"
    and "e_calls ex = [] \<or> take 3 (e_calls ex) = [Socket_DGRAM, SetTimeout 5, Bind 5002]"
    by blast+
  fix args
  assume t: "e_thread ex = Some args"
  from execute_props [OF e] t show p: "snd (snd (snd args)) = 5000" by auto
  from worker_constants [OF p]
  show "\<forall>c\<in>set (t_calls (worker w args)). uses_transfer_constants c" .
  from worker_shape [of w args] p
  show "t_calls (worker w args) = []
          \<or> take 3 (t_calls (worker w args))
              = [Socket_STREAM, SetTimeout 30, Connect (fst (snd (snd args))) 5000]"
    by simp
qed

theorem preferences_never_read_witness:
  "execute ascii_lib
       (scene_chair\<lparr>addon_preferences := \<lparr>pref_port = 6000, pref_discovery_port = 6001\<rparr>\<rparr>)
       world_ok
     = Some \<lparr>e_result = Inr FINISHED,
             e_reports = [(INFO, TransferStarted ''192.168.1.42'')],
             e_calls = [Socket_DGRAM, SetTimeout 5, Bind 5002, SetBroadcast,
                        SendTo [65, 66, 49, 50] 5001, RecvFrom 1024, Close],
             e_console = [Broadcasting (str_lit ''AB12'') 5001,
                          DiscoveredHeadset ''192.168.1.42''],
             e_thread = Some ([1, 2, 3, 4, 5, 6, 7, 8, 9, 10], str_lit ''Chair.glb'',
                              ''192.168.1.42'', 5000)\<rparr>
   \<and> take 3 (t_calls (worker world_ok ([1, 2, 3, 4, 5, 6, 7, 8, 9, 10], str_lit ''Chair.glb'',
                                        ''192.168.1.42'', 5000)))
     = [Socket_STREAM, SetTimeout 30, Connect ''192.168.1.42'' 5000]"
proof -
  let ?ex = "\<lparr>e_result = Inr FINISHED,
             e_reports = [(INFO, TransferStarted ''192.168.1.42'')],
             e_calls = [Socket_DGRAM, SetTimeout 5, Bind 5002, SetBroadcast,
                        SendTo [65, 66, 49, 50] 5001, RecvFrom 1024, Close],
             e_console = [Broadcasting (str_lit ''AB12'') 5001,
                          DiscoveredHeadset ''192.168.1.42''],
             e_thread = Some ([1, 2, 3, 4, 5, 6, 7, 8, 9, 10], str_lit ''Chair.glb'',
                              ''192.168.1.42'', 5000)\<rparr>"
  let ?args = "([1, 2, 3, 4, 5, 6, 7, 8, 9, 10], str_lit ''Chair.glb'', ''192.168.1.42'', 5000)
                 :: bytes \<times> pystr \<times> string \<times> nat"
  have e: "execute ascii_lib scene_chair world_ok = Some ?ex" by (rule execute_chair_ok)
  have t: "e_thread ?ex = Some ?args" by simp
  have n: "t_calls (worker world_ok ?args) \<noteq> []"
    unfolding worker_chair send_data_world_ok by simp
  note a = preferences_never_read [rule_format,
      where l = ascii_lib and ctx = scene_chair and w = world_ok
        and p = "\<lparr>pref_port = 6000, pref_discovery_port = 6001\<rparr>"]
  from a [THEN conjunct1] e
    a [THEN conjunct2, rule_format, OF e, THEN conjunct2, THEN conjunct2, rule_format, OF t,
      THEN conjunct2, THEN conjunct2] n
  show ?thesis by simp
qed


end
